theory Spec2Isabelle
  imports Main
begin

section \<open>Data model (models.py)\<close>

text \<open>
  The enumerations of models.py. \<open>AppointmentStatus\<close> has five members; the
  schemas module repeats the same enumerations, so one datatype stands for both.
\<close>

datatype VisitStatus = V_pending | V_completed | V_cancelled

datatype AppointmentStatus = available | booked | completed | cancelled | pending

datatype AvailabilityStatus = active | inactive

datatype DayOfWeek = Monday | Tuesday | Wednesday | Thursday | Friday | Saturday | Sunday

text \<open>The \<open>.value\<close> of a \<open>DayOfWeek\<close> member: the string the enum was declared with.\<close>

fun day_value :: "DayOfWeek \<Rightarrow> string" where
  "day_value Monday = ''Monday''"
| "day_value Tuesday = ''Tuesday''"
| "day_value Wednesday = ''Wednesday''"
| "day_value Thursday = ''Thursday''"
| "day_value Friday = ''Friday''"
| "day_value Saturday = ''Saturday''"
| "day_value Sunday = ''Sunday''"

text \<open>
  A Python \<open>date\<close> is its proleptic Gregorian ordinal (\<open>date.toordinal()\<close>), a
  \<open>time\<close> is the number of microseconds since midnight (below \<open>day_us\<close>), and a
  \<open>datetime\<close> is the number of microseconds since the start of ordinal 0. The
  \<open>created_at\<close> columns are filled by the server clock and are left out.
\<close>

type_synonym pydate = nat
type_synonym pytime = nat
type_synonym pydatetime = nat

definition day_us :: nat where
  "day_us = 86400000000"

definition valid_time :: "pytime \<Rightarrow> bool" where
  "valid_time t = (t < day_us)"

definition combine :: "pydate \<Rightarrow> pytime \<Rightarrow> pydatetime" where
  "combine d t = d * day_us + t"

definition dt_time :: "pydatetime \<Rightarrow> pytime" where
  "dt_time dt = dt mod day_us"

text \<open>\<open>timedelta(minutes=20)\<close> in microseconds.\<close>

definition minutes20 :: nat where
  "minutes20 = 1200000000"

text \<open>\<open>date.weekday()\<close>: Monday is 0; ordinal 1 (0001-01-01) is a Monday.\<close>

definition weekday :: "pydate \<Rightarrow> nat" where
  "weekday d = (d + 6) mod 7"

text \<open>\<open>calendar.day_name\<close> (English locale).\<close>

definition calendar_day_name :: "string list" where
  "calendar_day_name =
     [''Monday'', ''Tuesday'', ''Wednesday'', ''Thursday'', ''Friday'', ''Saturday'', ''Sunday'']"

record Availability =
  av_availability_id :: nat
  av_doctor_id :: string
  av_day_of_week :: DayOfWeek
  av_start_time :: pytime
  av_end_time :: pytime
  av_status :: AvailabilityStatus

record AppointmentSchedule =
  sch_schedule_id :: nat
  sch_doctor_id :: string
  sch_student_id :: "nat option"
  sch_availability_id :: "nat option"
  sch_start_time :: pytime
  sch_end_time :: pytime
  sch_date :: pydate
  sch_status :: AppointmentStatus

record ClinicVisit =
  vis_visit_id :: nat
  vis_student_id :: nat
  vis_doctor_id :: string
  vis_schedule_id :: "nat option"
  vis_visit_date :: pydate
  vis_status :: VisitStatus

record StudentComplaint =
  cp_complaint_id :: nat
  cp_visit_id :: nat
  cp_student_id :: nat
  cp_complaint_description :: string

record DoctorDiagnosis =
  dg_diagnosis_id :: nat
  dg_visit_id :: nat
  dg_student_id :: nat
  dg_complaint_id :: nat
  dg_doctor_id :: string
  dg_diagnosis_description :: string
  dg_treatment_plan :: "string option"

text \<open>
  The committed database: one list of rows per table, in insertion order, and the next
  value of each table's autoincrement sequence.
\<close>

record db =
  availabilities :: "Availability list"
  appointment_schedules :: "AppointmentSchedule list"
  clinic_visits :: "ClinicVisit list"
  complaints :: "StudentComplaint list"
  doctor_diagnoses :: "DoctorDiagnosis list"
  schedule_seq :: nat
  visit_seq :: nat
  complaint_seq :: nat
  diagnosis_seq :: nat

text \<open>
  What a handler or job can raise: an \<open>HTTPException\<close> with its status code, or one
  of SQLAlchemy's exceptions: \<open>MultipleResultsFound\<close> out of
  \<open>scalar_one_or_none\<close>, \<open>InvalidRequestError\<close> out of a session used against
  its transaction state, \<open>IntegrityError\<close> out of a statement that breaks a foreign
  key.
\<close>

datatype exn = HTTPException nat | MultipleResultsFound | InvalidRequestError | IntegrityError

text \<open>
  The status the caller of a route sees when an exception leaves the handler: the
  status of an \<open>HTTPException\<close>, and 500 for every other exception.
\<close>

fun http_status :: "exn \<Rightarrow> nat" where
  "http_status (HTTPException code) = code"
| "http_status MultipleResultsFound = 500"
| "http_status InvalidRequestError = 500"
| "http_status IntegrityError = 500"

text \<open>Every operation returns what it raised or returned, and the database it leaves.\<close>

type_synonym 'a outcome = "(exn + 'a) \<times> db"

text \<open>\<open>Result.scalar_one_or_none()\<close>: no row, the one row, or an exception.\<close>

fun scalar_one_or_none :: "'a list \<Rightarrow> exn + 'a option" where
  "scalar_one_or_none [] = Inr None"
| "scalar_one_or_none [x] = Inr (Some x)"
| "scalar_one_or_none (x # y # zs) = Inl MultipleResultsFound"

section \<open>Slot generator and cleaner (task_scheduler.py)\<close>

definition get_next_week_dates_for_day :: "pydate \<Rightarrow> string \<Rightarrow> pydate list" where
  "get_next_week_dates_for_day today day_name =
     (let next_monday = today + (7 - weekday today)
      in [next_monday + i. i \<leftarrow> [0..<7],
            calendar_day_name ! weekday (next_monday + i) = day_name])"

text \<open>
  The duplicate query of \<open>generate_schedules\<close>: \<open>filter_by(doctor_id, date,
  start_time, end_time)\<close>. The session is created with \<open>autoflush=False\<close>, so the
  query sees the committed rows only, never the rows the running job has added.
\<close>

definition existing_query ::
  "db \<Rightarrow> string \<Rightarrow> pydate \<Rightarrow> pytime \<Rightarrow> pytime \<Rightarrow> AppointmentSchedule list" where
  "existing_query d doc dat st en =
     filter (\<lambda>r. sch_doctor_id r = doc \<and> sch_date r = dat \<and>
                 sch_start_time r = st \<and> sch_end_time r = en)
            (appointment_schedules d)"

text \<open>The row the generator adds; its primary key is assigned when the job commits.\<close>

definition generated_slot ::
  "Availability \<Rightarrow> pydate \<Rightarrow> pytime \<Rightarrow> pytime \<Rightarrow> AppointmentSchedule" where
  "generated_slot avail schedule_date st en =
     \<lparr> sch_schedule_id = 0,
       sch_doctor_id = av_doctor_id avail,
       sch_student_id = None,
       sch_availability_id = Some (av_availability_id avail),
       sch_start_time = st,
       sch_end_time = en,
       sch_date = schedule_date,
       sch_status = available \<rparr>"

text \<open>
  The \<open>while slot_start < end\<close> loop; \<open>added\<close> is the session's list of new rows.
\<close>

function slot_loop ::
  "db \<Rightarrow> Availability \<Rightarrow> pydate \<Rightarrow> pydatetime \<Rightarrow> pydatetime \<Rightarrow>
   AppointmentSchedule list \<Rightarrow> exn + AppointmentSchedule list" where
  "slot_loop d avail schedule_date slot_start end added =
     (if slot_start < end then
        (let slot_end = slot_start + minutes20 in
         if slot_end > end then Inr added
         else
           (case scalar_one_or_none
                   (existing_query d (av_doctor_id avail) schedule_date
                      (dt_time slot_start) (dt_time slot_end)) of
              Inl e \<Rightarrow> Inl e
            | Inr existing \<Rightarrow>
                slot_loop d avail schedule_date slot_end end
                  (if existing = None
                   then added @ [generated_slot avail schedule_date
                                   (dt_time slot_start) (dt_time slot_end)]
                   else added)))
      else Inr added)"
  by pat_completeness auto
termination
  by (relation "measure (\<lambda>(d, avail, schedule_date, slot_start, end, added). end - slot_start)")
     (auto simp: minutes20_def)

declare slot_loop.simps [simp del]

text \<open>\<open>for schedule_date in dates\<close>.\<close>

fun dates_loop ::
  "db \<Rightarrow> Availability \<Rightarrow> pydate list \<Rightarrow> AppointmentSchedule list \<Rightarrow>
   exn + AppointmentSchedule list" where
  "dates_loop d avail [] added = Inr added"
| "dates_loop d avail (schedule_date # dates) added =
     (case slot_loop d avail schedule_date
             (combine schedule_date (av_start_time avail))
             (combine schedule_date (av_end_time avail)) added of
        Inl e \<Rightarrow> Inl e
      | Inr added' \<Rightarrow> dates_loop d avail dates added')"

text \<open>\<open>for avail in availabilities\<close>.\<close>

fun avail_loop ::
  "db \<Rightarrow> pydate \<Rightarrow> Availability list \<Rightarrow> AppointmentSchedule list \<Rightarrow>
   exn + AppointmentSchedule list" where
  "avail_loop d today [] added = Inr added"
| "avail_loop d today (avail # avails) added =
     (case dates_loop d avail
             (get_next_week_dates_for_day today (day_value (av_day_of_week avail))) added of
        Inl e \<Rightarrow> Inl e
      | Inr added' \<Rightarrow> avail_loop d today avails added')"

text \<open>The commit inserts the new rows, each with the next value of the sequence.\<close>

fun assign_ids :: "nat \<Rightarrow> AppointmentSchedule list \<Rightarrow> AppointmentSchedule list" where
  "assign_ids n [] = []"
| "assign_ids n (r # rs) = r\<lparr>sch_schedule_id := n\<rparr> # assign_ids (Suc n) rs"

text \<open>
  \<open>generate_schedules\<close>, with the current date as a parameter. An exception leaves the
  job before its only commit, so the database is then unchanged.
\<close>

definition generate_schedules :: "pydate \<Rightarrow> db \<Rightarrow> unit outcome" where
  "generate_schedules today d =
     (case avail_loop d today
             (filter (\<lambda>a. av_status a = active) (availabilities d)) [] of
        Inl e \<Rightarrow> (Inl e, d)
      | Inr added \<Rightarrow>
          (Inr (),
           d\<lparr>appointment_schedules :=
                appointment_schedules d @ assign_ids (schedule_seq d) added,
             schedule_seq := schedule_seq d + length added\<rparr>))"

text \<open>
  \<open>cleanup_past_schedules\<close>: one \<open>DELETE\<close> statement; the job prints
  \<open>result.rowcount\<close>, returned here. The column \<open>clinic_visits.schedule_id\<close> is
  a foreign key to the slot table with no \<open>ON DELETE\<close> action, so the statement
  raises \<open>IntegrityError\<close> and deletes nothing when a row it would delete is still
  referenced by a visit.
\<close>

definition cleanup_past_schedules :: "pydate \<Rightarrow> db \<Rightarrow> nat outcome" where
  "cleanup_past_schedules today d =
     (let doomed = (\<lambda>r. sch_date r < today \<and> sch_status r = available);
          referenced = (\<lambda>r. list_ex (\<lambda>v. vis_schedule_id v = Some (sch_schedule_id r))
                                   (clinic_visits d))
      in if list_ex (\<lambda>r. doomed r \<and> referenced r) (appointment_schedules d)
         then (Inl IntegrityError, d)
         else (Inr (length (filter doomed (appointment_schedules d))),
               d\<lparr>appointment_schedules :=
                    filter (\<lambda>r. \<not> doomed r) (appointment_schedules d)\<rparr>))"

section \<open>Booking engine (routers/student.py, routers/doctor.py)\<close>

text \<open>
  The handlers are modelled on the committed database. The exceptions modelled are the
  ones the handlers raise themselves, \<open>MultipleResultsFound\<close>, and the
  \<open>InvalidRequestError\<close> of \<open>book_schedule\<close>'s transaction block; every other
  session call is taken to succeed.
\<close>

text \<open>
  The authenticated caller, as \<open>oauth2.get_current_user\<close> returns it: the role, the
  \<open>user_id\<close> of a staff account and the \<open>student_id\<close> of a student account.
\<close>

record principal =
  p_role :: string
  p_user_id :: string
  p_student_id :: nat

text \<open>Python's truth value of an optional integer column: \<open>None\<close> and \<open>0\<close> are false.\<close>

fun truthy :: "nat option \<Rightarrow> bool" where
  "truthy None = False"
| "truthy (Some n) = (n \<noteq> 0)"

text \<open>
  An ORM attribute assignment followed by \<open>commit\<close>: an \<open>UPDATE\<close> of the row with
  that primary key.
\<close>

definition update_schedule_row ::
  "nat \<Rightarrow> (AppointmentSchedule \<Rightarrow> AppointmentSchedule) \<Rightarrow> db \<Rightarrow> db" where
  "update_schedule_row sid f d =
     d\<lparr>appointment_schedules :=
          map (\<lambda>r. if sch_schedule_id r = sid then f r else r) (appointment_schedules d)\<rparr>"

definition update_visit_row :: "nat \<Rightarrow> (ClinicVisit \<Rightarrow> ClinicVisit) \<Rightarrow> db \<Rightarrow> db" where
  "update_visit_row vid f d =
     d\<lparr>clinic_visits :=
          map (\<lambda>v. if vis_visit_id v = vid then f v else v) (clinic_visits d)\<rparr>"

text \<open>
  \<open>book_schedule\<close> (POST /students/schedules). After the role check the handler
  enters \<open>async with db.begin()\<close>, which raises \<open>InvalidRequestError\<close> when the
  session has already begun a transaction. The session of the route is the one that
  \<open>get_current_user\<close> has just queried (the same \<open>Depends(database.get_db)\<close>), so
  a request reaches the handler with \<open>in_transaction\<close> true. On a session without a
  transaction the body runs: its \<open>db.commit()\<close> ends the transaction of the block,
  and the \<open>db.refresh\<close> that follows, still inside the block, raises
  \<open>InvalidRequestError\<close> after the writes are committed. The handler also sets an
  \<open>updated_at\<close> attribute, which is no column of the table.
\<close>

definition book_schedule ::
  "bool \<Rightarrow> nat \<Rightarrow> principal \<Rightarrow> db \<Rightarrow> AppointmentSchedule outcome" where
  "book_schedule in_transaction booking_schedule_id current_user d =
     (if p_role current_user \<noteq> ''student'' then (Inl (HTTPException 403), d)
      else if in_transaction then (Inl InvalidRequestError, d)
      else
        (case scalar_one_or_none
                (filter (\<lambda>r. sch_schedule_id r = booking_schedule_id \<and>
                              sch_student_id r = None \<and>
                              sch_status r = booked)
                        (appointment_schedules d)) of
           Inl e \<Rightarrow> (Inl e, d)
         | Inr None \<Rightarrow> (Inl (HTTPException 400), d)
         | Inr (Some schedule) \<Rightarrow>
             (let new_visit =
                    \<lparr> vis_visit_id = visit_seq d,
                      vis_student_id = p_student_id current_user,
                      vis_doctor_id = sch_doctor_id schedule,
                      vis_schedule_id = Some (sch_schedule_id schedule),
                      vis_visit_date = sch_date schedule,
                      vis_status = V_pending \<rparr>;
                  d1 = update_schedule_row (sch_schedule_id schedule)
                         (\<lambda>r. r\<lparr>sch_student_id := Some (p_student_id current_user)\<rparr>) d
              in (Inl InvalidRequestError,
                  d1\<lparr>clinic_visits := clinic_visits d1 @ [new_visit],
                     visit_seq := Suc (visit_seq d1)\<rparr>))))"

text \<open>
  \<open>create_visit_and_complaint\<close> (POST /students/complaints): first the body of its
  \<open>try\<close> block, returning the new visit, then the handler, whose
  \<open>except Exception\<close> turns whatever the body raises, its own \<open>HTTPException\<close>s
  included, into status 500.
\<close>

definition create_visit_and_complaint_body ::
  "nat \<Rightarrow> string \<Rightarrow> principal \<Rightarrow> db \<Rightarrow> ClinicVisit outcome" where
  "create_visit_and_complaint_body payload_schedule_id complaint_description current_student d =
     (case scalar_one_or_none
             (filter (\<lambda>r. sch_schedule_id r = payload_schedule_id \<and>
                           sch_status r = available)
                     (appointment_schedules d)) of
        Inl e \<Rightarrow> (Inl e, d)
      | Inr None \<Rightarrow> (Inl (HTTPException 404), d)
      | Inr (Some schedule) \<Rightarrow>
          (case scalar_one_or_none
                  (filter (\<lambda>v. vis_schedule_id v = Some payload_schedule_id \<and>
                                vis_student_id v = p_student_id current_student)
                          (clinic_visits d)) of
             Inl e \<Rightarrow> (Inl e, d)
           | Inr (Some existing_visit) \<Rightarrow> (Inl (HTTPException 400), d)
           | Inr None \<Rightarrow>
               (let visit =
                      \<lparr> vis_visit_id = visit_seq d,
                        vis_student_id = p_student_id current_student,
                        vis_doctor_id = sch_doctor_id schedule,
                        vis_schedule_id = Some (sch_schedule_id schedule),
                        vis_visit_date = sch_date schedule,
                        vis_status = V_pending \<rparr>;
                    complaint =
                      \<lparr> cp_complaint_id = complaint_seq d,
                        cp_visit_id = vis_visit_id visit,
                        cp_student_id = p_student_id current_student,
                        cp_complaint_description = complaint_description \<rparr>;
                    d1 = update_schedule_row (sch_schedule_id schedule)
                           (\<lambda>r. r\<lparr>sch_student_id := Some (p_student_id current_student),
                                   sch_status := booked\<rparr>) d
                in (Inr visit,
                    d1\<lparr>clinic_visits := clinic_visits d1 @ [visit],
                       visit_seq := Suc (visit_seq d1),
                       complaints := complaints d1 @ [complaint],
                       complaint_seq := Suc (complaint_seq d1)\<rparr>))))"

definition create_visit_and_complaint ::
  "nat \<Rightarrow> string \<Rightarrow> principal \<Rightarrow> db \<Rightarrow> ClinicVisit outcome" where
  "create_visit_and_complaint payload_schedule_id complaint_description current_student d =
     (case create_visit_and_complaint_body payload_schedule_id complaint_description
             current_student d of
        (Inl e, d') \<Rightarrow> (Inl (HTTPException 500), d')
      | (Inr visit, d') \<Rightarrow> (Inr visit, d'))"

text \<open>
  The two halves of that body on their own: its two queries (steps 1 and 2 of the
  handler's comments) and its writes (steps 3 to 5 with the commit). The handler awaits
  every database call and takes no lock on the row, so the commit of another request
  can fall between its queries and its own commit.
\<close>

definition complaint_checks :: "nat \<Rightarrow> principal \<Rightarrow> db \<Rightarrow> exn + AppointmentSchedule" where
  "complaint_checks payload_schedule_id current_student d =
     (case scalar_one_or_none
             (filter (\<lambda>r. sch_schedule_id r = payload_schedule_id \<and>
                           sch_status r = available)
                     (appointment_schedules d)) of
        Inl e \<Rightarrow> Inl e
      | Inr None \<Rightarrow> Inl (HTTPException 404)
      | Inr (Some schedule) \<Rightarrow>
          (case scalar_one_or_none
                  (filter (\<lambda>v. vis_schedule_id v = Some payload_schedule_id \<and>
                                vis_student_id v = p_student_id current_student)
                          (clinic_visits d)) of
             Inl e \<Rightarrow> Inl e
           | Inr (Some existing_visit) \<Rightarrow> Inl (HTTPException 400)
           | Inr None \<Rightarrow> Inr schedule))"

definition complaint_writes ::
  "AppointmentSchedule \<Rightarrow> string \<Rightarrow> principal \<Rightarrow> db \<Rightarrow> ClinicVisit \<times> db" where
  "complaint_writes schedule complaint_description current_student d =
     (let visit =
            \<lparr> vis_visit_id = visit_seq d,
              vis_student_id = p_student_id current_student,
              vis_doctor_id = sch_doctor_id schedule,
              vis_schedule_id = Some (sch_schedule_id schedule),
              vis_visit_date = sch_date schedule,
              vis_status = V_pending \<rparr>;
          complaint =
            \<lparr> cp_complaint_id = complaint_seq d,
              cp_visit_id = vis_visit_id visit,
              cp_student_id = p_student_id current_student,
              cp_complaint_description = complaint_description \<rparr>;
          d1 = update_schedule_row (sch_schedule_id schedule)
                 (\<lambda>r. r\<lparr>sch_student_id := Some (p_student_id current_student),
                         sch_status := booked\<rparr>) d
      in (visit,
          d1\<lparr>clinic_visits := clinic_visits d1 @ [visit],
             visit_seq := Suc (visit_seq d1),
             complaints := complaints d1 @ [complaint],
             complaint_seq := Suc (complaint_seq d1)\<rparr>))"

text \<open>The dependency \<open>get_current_doctor\<close> of the doctor routes.\<close>

definition get_current_doctor :: "principal \<Rightarrow> exn + principal" where
  "get_current_doctor current_user =
     (if p_role current_user \<noteq> ''doctor'' then Inl (HTTPException 403) else Inr current_user)"

text \<open>\<open>cancel_schedule\<close> (PUT /doctor/schedules/{schedule_id}/cancel).\<close>

definition cancel_schedule :: "nat \<Rightarrow> principal \<Rightarrow> db \<Rightarrow> AppointmentSchedule outcome" where
  "cancel_schedule schedule_id user d =
     (case get_current_doctor user of
        Inl e \<Rightarrow> (Inl e, d)
      | Inr current_user \<Rightarrow>
          (case scalar_one_or_none
                  (filter (\<lambda>r. sch_schedule_id r = schedule_id) (appointment_schedules d)) of
             Inl e \<Rightarrow> (Inl e, d)
           | Inr None \<Rightarrow> (Inl (HTTPException 404), d)
           | Inr (Some schedule) \<Rightarrow>
               if sch_doctor_id schedule \<noteq> p_user_id current_user
               then (Inl (HTTPException 403), d)
               else if sch_status schedule = cancelled
               then (Inl (HTTPException 400), d)
               else (Inr (schedule\<lparr>sch_status := cancelled\<rparr>),
                     update_schedule_row (sch_schedule_id schedule)
                       (\<lambda>r. r\<lparr>sch_status := cancelled\<rparr>) d)))"

text \<open>
  The tail shared by \<open>complete_visit\<close> and \<open>create_diagnosis\<close>: if the visit has a
  schedule and the schedule row is found, its status becomes \<open>completed\<close>, whatever it
  was, and is committed.
\<close>

definition complete_linked_schedule :: "ClinicVisit \<Rightarrow> db \<Rightarrow> unit outcome" where
  "complete_linked_schedule visit d =
     (if truthy (vis_schedule_id visit) then
        (case scalar_one_or_none
                (filter (\<lambda>r. Some (sch_schedule_id r) = vis_schedule_id visit)
                        (appointment_schedules d)) of
           Inl e \<Rightarrow> (Inl e, d)
         | Inr None \<Rightarrow> (Inr (), d)
         | Inr (Some schedule) \<Rightarrow>
             (Inr (), update_schedule_row (sch_schedule_id schedule)
                        (\<lambda>r. r\<lparr>sch_status := completed\<rparr>) d))
      else (Inr (), d))"

text \<open>
  \<open>complete_visit\<close> (POST /doctor/visits/{visit_id}/complete). The visit is committed
  as completed before the schedule is looked up.
\<close>

definition complete_visit :: "nat \<Rightarrow> principal \<Rightarrow> db \<Rightarrow> ClinicVisit outcome" where
  "complete_visit visit_id user d =
     (case get_current_doctor user of
        Inl e \<Rightarrow> (Inl e, d)
      | Inr current_user \<Rightarrow>
          (case scalar_one_or_none
                  (filter (\<lambda>v. vis_visit_id v = visit_id \<and>
                                vis_doctor_id v = p_user_id current_user \<and>
                                vis_status v = V_pending)
                          (clinic_visits d)) of
             Inl e \<Rightarrow> (Inl e, d)
           | Inr None \<Rightarrow> (Inl (HTTPException 404), d)
           | Inr (Some visit) \<Rightarrow>
               (let visit' = visit\<lparr>vis_status := V_completed\<rparr>;
                    d1 = update_visit_row (vis_visit_id visit)
                           (\<lambda>v. v\<lparr>vis_status := V_completed\<rparr>) d
                in case complete_linked_schedule visit' d1 of
                     (Inl e, d2) \<Rightarrow> (Inl e, d2)
                   | (Inr u, d2) \<Rightarrow> (Inr visit', d2))))"

text \<open>The request body of POST /doctor/diagnoses (\<open>schemas.DiagnosisCreate\<close>).\<close>

record DiagnosisCreate =
  dc_visit_id :: nat
  dc_complaint_id :: nat
  dc_student_id :: nat
  dc_diagnosis_description :: string
  dc_treatment_plan :: "string option"

text \<open>
  \<open>create_diagnosis\<close> (POST /doctor/diagnoses). The diagnosis is committed first;
  an exception after that is answered with status 500.
\<close>

definition create_diagnosis :: "DiagnosisCreate \<Rightarrow> principal \<Rightarrow> db \<Rightarrow> DoctorDiagnosis outcome" where
  "create_diagnosis diagnosis user d =
     (case get_current_doctor user of
        Inl e \<Rightarrow> (Inl e, d)
      | Inr current_user \<Rightarrow>
          (case scalar_one_or_none
                  (filter (\<lambda>v. vis_visit_id v = dc_visit_id diagnosis \<and>
                                vis_doctor_id v = p_user_id current_user)
                          (clinic_visits d)) of
             Inl e \<Rightarrow> (Inl e, d)
           | Inr None \<Rightarrow> (Inl (HTTPException 404), d)
           | Inr (Some visit) \<Rightarrow>
               if vis_student_id visit \<noteq> dc_student_id diagnosis
               then (Inl (HTTPException 400), d)
               else
                 (let db_diagnosis =
                        \<lparr> dg_diagnosis_id = diagnosis_seq d,
                          dg_visit_id = dc_visit_id diagnosis,
                          dg_student_id = dc_student_id diagnosis,
                          dg_complaint_id = dc_complaint_id diagnosis,
                          dg_doctor_id = p_user_id current_user,
                          dg_diagnosis_description = dc_diagnosis_description diagnosis,
                          dg_treatment_plan = dc_treatment_plan diagnosis \<rparr>;
                      d1 = d\<lparr>doctor_diagnoses := doctor_diagnoses d @ [db_diagnosis],
                             diagnosis_seq := Suc (diagnosis_seq d)\<rparr>
                  in case complete_linked_schedule visit d1 of
                       (Inl e, d2) \<Rightarrow> (Inl (HTTPException 500), d2)
                     | (Inr u, d2) \<Rightarrow> (Inr db_diagnosis, d2))))"

text \<open>The request body of POST /doctor/schedules (\<open>schemas.AppointmentScheduleCreate\<close>).\<close>

record AppointmentScheduleCreate =
  sc_availability_id :: nat
  sc_date :: pydate
  sc_start_time :: pytime
  sc_end_time :: pytime

text \<open>
  \<open>create_schedule\<close> (POST /doctor/schedules), with the current date as a parameter.
  Once the caller is known to be a doctor, the schema's validator rejects a past date
  before the handler runs (status 422). The
  handler re-raises its own \<open>HTTPException\<close>s and answers any other exception of the
  \<open>try\<close> block with status 500.
\<close>

definition create_schedule ::
  "pydate \<Rightarrow> AppointmentScheduleCreate \<Rightarrow> principal \<Rightarrow> db \<Rightarrow> AppointmentSchedule outcome" where
  "create_schedule today schedule user d =
     (case get_current_doctor user of
        Inl e \<Rightarrow> (Inl e, d)
      | Inr current_user \<Rightarrow>
          if sc_date schedule < today then (Inl (HTTPException 422), d)
          else
            (if sc_start_time schedule \<ge> sc_end_time schedule
             then (Inl (HTTPException 400), d)
             else
               (case scalar_one_or_none
                       (filter (\<lambda>a. av_availability_id a = sc_availability_id schedule \<and>
                                     av_doctor_id a = p_user_id current_user \<and>
                                     av_status a = active)
                               (availabilities d)) of
                  Inl e \<Rightarrow> (Inl (HTTPException 500), d)
                | Inr None \<Rightarrow> (Inl (HTTPException 404), d)
                | Inr (Some availability) \<Rightarrow>
                    if calendar_day_name ! weekday (sc_date schedule) \<noteq>
                         day_value (av_day_of_week availability)
                    then (Inl (HTTPException 400), d)
                    else if sc_start_time schedule < av_start_time availability \<or>
                            sc_end_time schedule > av_end_time availability
                    then (Inl (HTTPException 400), d)
                    else
                      (case scalar_one_or_none
                              (filter (\<lambda>r. sch_doctor_id r = p_user_id current_user \<and>
                                            sch_date r = sc_date schedule \<and>
                                            sch_start_time r < sc_end_time schedule \<and>
                                            sch_end_time r > sc_start_time schedule)
                                      (appointment_schedules d)) of
                         Inl e \<Rightarrow> (Inl (HTTPException 500), d)
                       | Inr (Some existing_schedule) \<Rightarrow> (Inl (HTTPException 409), d)
                       | Inr None \<Rightarrow>
                           (let db_schedule =
                                  \<lparr> sch_schedule_id = schedule_seq d,
                                    sch_doctor_id = p_user_id current_user,
                                    sch_student_id = None,
                                    sch_availability_id = Some (sc_availability_id schedule),
                                    sch_start_time = sc_start_time schedule,
                                    sch_end_time = sc_end_time schedule,
                                    sch_date = sc_date schedule,
                                    sch_status = available \<rparr>
                            in (Inr db_schedule,
                                d\<lparr>appointment_schedules :=
                                     appointment_schedules d @ [db_schedule],
                                   schedule_seq := Suc (schedule_seq d)\<rparr>))))))"

text \<open>
  The slot invariant of the data model: no two rows of the table belong to the same
  doctor and date with overlapping time ranges.
\<close>

definition overlaps :: "AppointmentSchedule \<Rightarrow> AppointmentSchedule \<Rightarrow> bool" where
  "overlaps a b =
     (sch_doctor_id a = sch_doctor_id b \<and> sch_date a = sch_date b \<and>
      sch_start_time a < sch_end_time b \<and> sch_start_time b < sch_end_time a)"

fun no_overlap :: "AppointmentSchedule list \<Rightarrow> bool" where
  "no_overlap [] = True"
| "no_overlap (r # rs) = (list_all (\<lambda>x. \<not> overlaps r x) rs \<and> no_overlap rs)"

section \<open>The generator's loops in closed form\<close>

text \<open>
  Auxiliary notions for the proofs: the sub-intervals the \<open>while\<close> loop visits, the
  committed rows that match one of them, and the rows one occurrence, one window and one
  whole run add.
\<close>

definition loop_intervals :: "pydatetime \<Rightarrow> pydatetime \<Rightarrow> (pydatetime \<times> pydatetime) list" where
  "loop_intervals cur end =
     map (\<lambda>i. (cur + i * minutes20, cur + Suc i * minutes20)) [0..<(end - cur) div minutes20]"

fun add_intervals ::
  "db \<Rightarrow> Availability \<Rightarrow> pydate \<Rightarrow> (pydatetime \<times> pydatetime) list \<Rightarrow>
   AppointmentSchedule list \<Rightarrow> exn + AppointmentSchedule list" where
  "add_intervals d avail sd [] added = Inr added"
| "add_intervals d avail sd ((a, b) # cs) added =
     (case scalar_one_or_none (existing_query d (av_doctor_id avail) sd (dt_time a) (dt_time b)) of
        Inl e \<Rightarrow> Inl e
      | Inr existing \<Rightarrow>
          add_intervals d avail sd cs
            (if existing = None then added @ [generated_slot avail sd (dt_time a) (dt_time b)]
             else added))"

definition interval_rows ::
  "db \<Rightarrow> Availability \<Rightarrow> pydate \<Rightarrow> (pydatetime \<times> pydatetime) \<Rightarrow> AppointmentSchedule list" where
  "interval_rows d avail sd c =
     existing_query d (av_doctor_id avail) sd (dt_time (fst c)) (dt_time (snd c))"

definition interval_slot ::
  "Availability \<Rightarrow> pydate \<Rightarrow> (pydatetime \<times> pydatetime) \<Rightarrow> AppointmentSchedule" where
  "interval_slot avail sd c = generated_slot avail sd (dt_time (fst c)) (dt_time (snd c))"

definition occurrence_intervals :: "Availability \<Rightarrow> pydate \<Rightarrow> (pydatetime \<times> pydatetime) list" where
  "occurrence_intervals avail sd =
     loop_intervals (combine sd (av_start_time avail)) (combine sd (av_end_time avail))"

definition occurrence_ok :: "db \<Rightarrow> Availability \<Rightarrow> pydate \<Rightarrow> bool" where
  "occurrence_ok d avail sd =
     list_all (\<lambda>c. length (interval_rows d avail sd c) \<le> 1) (occurrence_intervals avail sd)"

definition occurrence_rows :: "db \<Rightarrow> Availability \<Rightarrow> pydate \<Rightarrow> AppointmentSchedule list" where
  "occurrence_rows d avail sd =
     map (interval_slot avail sd)
       (filter (\<lambda>c. interval_rows d avail sd c = []) (occurrence_intervals avail sd))"

definition window_dates :: "pydate \<Rightarrow> Availability \<Rightarrow> pydate list" where
  "window_dates today avail = get_next_week_dates_for_day today (day_value (av_day_of_week avail))"

definition window_ok :: "db \<Rightarrow> pydate \<Rightarrow> Availability \<Rightarrow> bool" where
  "window_ok d today avail = list_all (occurrence_ok d avail) (window_dates today avail)"

definition window_rows :: "db \<Rightarrow> pydate \<Rightarrow> Availability \<Rightarrow> AppointmentSchedule list" where
  "window_rows d today avail = concat (map (occurrence_rows d avail) (window_dates today avail))"

definition active_windows :: "db \<Rightarrow> Availability list" where
  "active_windows d = filter (\<lambda>a. av_status a = active) (availabilities d)"

definition run_rows :: "pydate \<Rightarrow> db \<Rightarrow> AppointmentSchedule list" where
  "run_rows today d = concat (map (window_rows d today) (active_windows d))"

section \<open>Concrete data for the worked instances\<close>

definition empty_db :: db where
  "empty_db =
     \<lparr> availabilities = [], appointment_schedules = [], clinic_visits = [],
       complaints = [], doctor_diagnoses = [],
       schedule_seq = 1, visit_seq = 1, complaint_seq = 1, diagnosis_seq = 1 \<rparr>"

definition slot_row ::
  "nat \<Rightarrow> string \<Rightarrow> nat option \<Rightarrow> pydate \<Rightarrow> pytime \<Rightarrow> pytime \<Rightarrow> AppointmentStatus \<Rightarrow>
   AppointmentSchedule" where
  "slot_row i doc st dat a b s =
     \<lparr> sch_schedule_id = i, sch_doctor_id = doc, sch_student_id = st,
       sch_availability_id = None, sch_start_time = a, sch_end_time = b,
       sch_date = dat, sch_status = s \<rparr>"

definition cleaner_db :: db where
  "cleaner_db = empty_db\<lparr>appointment_schedules :=
     [slot_row 1 ''doc'' None 5 0 minutes20 available,
      slot_row 2 ''doc'' (Some 7) 5 minutes20 (2 * minutes20) booked,
      slot_row 3 ''doc'' None 12 0 minutes20 available],
     schedule_seq := 4\<rparr>"

definition visit_row :: "nat \<Rightarrow> nat \<Rightarrow> string \<Rightarrow> nat option \<Rightarrow> pydate \<Rightarrow> VisitStatus \<Rightarrow> ClinicVisit" where
  "visit_row i st doc sid dat s =
     \<lparr> vis_visit_id = i, vis_student_id = st, vis_doctor_id = doc, vis_schedule_id = sid,
       vis_visit_date = dat, vis_status = s \<rparr>"

definition referenced_slot_db :: db where
  "referenced_slot_db = empty_db\<lparr>appointment_schedules :=
     [slot_row 1 ''doc'' None 5 0 minutes20 available,
      slot_row 2 ''doc'' None 5 minutes20 (2 * minutes20) available],
     clinic_visits := [visit_row 1 7 ''doc'' (Some 1) 5 V_pending],
     schedule_seq := 3, visit_seq := 2\<rparr>"

definition monday_window :: Availability where
  "monday_window =
     \<lparr> av_availability_id = 1, av_doctor_id = ''doc'', av_day_of_week = Monday,
       av_start_time = 32400000000, av_end_time = 35400000000, av_status = active \<rparr>"

definition window_db :: db where
  "window_db = empty_db\<lparr>availabilities := [monday_window]\<rparr>"

definition window_db_after :: db where
  "window_db_after = window_db\<lparr>appointment_schedules :=
       [(slot_row 1 ''doc'' None 8 32400000000 33600000000 available)
          \<lparr>sch_availability_id := Some 1\<rparr>,
        (slot_row 2 ''doc'' None 8 33600000000 34800000000 available)
          \<lparr>sch_availability_id := Some 1\<rparr>],
     schedule_seq := 3\<rparr>"

definition student7 :: principal where
  "student7 = \<lparr> p_role = ''student'', p_user_id = [], p_student_id = 7 \<rparr>"

definition student8 :: principal where
  "student8 = \<lparr> p_role = ''student'', p_user_id = [], p_student_id = 8 \<rparr>"

definition doctor_doc :: principal where
  "doctor_doc = \<lparr> p_role = ''doctor'', p_user_id = ''doc'', p_student_id = 0 \<rparr>"

definition one_slot_db :: "nat option \<Rightarrow> AppointmentStatus \<Rightarrow> db" where
  "one_slot_db stu st = empty_db\<lparr>appointment_schedules :=
       [slot_row 1 ''doc'' stu 8 32400000000 33600000000 st],
     schedule_seq := 2\<rparr>"

definition complaint_after :: db where
  "complaint_after = (one_slot_db None available)\<lparr>appointment_schedules :=
           [slot_row 1 ''doc'' (Some 7) 8 32400000000 33600000000 booked],
         clinic_visits := [visit_row 1 7 ''doc'' (Some 1) 8 V_pending],
         visit_seq := 2,
         complaints := [\<lparr> cp_complaint_id = 1, cp_visit_id = 1, cp_student_id = 7,
                          cp_complaint_description = ''fever'' \<rparr>],
         complaint_seq := 2\<rparr>"

definition booking_after :: db where
  "booking_after = (one_slot_db None booked)\<lparr>appointment_schedules :=
           [slot_row 1 ''doc'' (Some 7) 8 32400000000 33600000000 booked],
         clinic_visits := [visit_row 1 7 ''doc'' (Some 1) 8 V_pending],
         visit_seq := 2\<rparr>"

definition visit_db :: "AppointmentStatus \<Rightarrow> VisitStatus \<Rightarrow> db" where
  "visit_db st vst = empty_db\<lparr>appointment_schedules :=
       [slot_row 1 ''doc'' (Some 7) 8 32400000000 33600000000 st],
     clinic_visits := [visit_row 1 7 ''doc'' (Some 1) 8 vst],
     complaints := [\<lparr> cp_complaint_id = 1, cp_visit_id = 1, cp_student_id = 7,
                      cp_complaint_description = ''fever'' \<rparr>],
     schedule_seq := 2, visit_seq := 2, complaint_seq := 2\<rparr>"

definition diagnosis_request :: DiagnosisCreate where
  "diagnosis_request =
     \<lparr> dc_visit_id = 1, dc_complaint_id = 1, dc_student_id = 7,
       dc_diagnosis_description = ''malaria'', dc_treatment_plan = None \<rparr>"

definition diagnosis_row :: DoctorDiagnosis where
  "diagnosis_row =
     \<lparr> dg_diagnosis_id = 1, dg_visit_id = 1, dg_student_id = 7, dg_complaint_id = 1,
       dg_doctor_id = ''doc'', dg_diagnosis_description = ''malaria'',
       dg_treatment_plan = None \<rparr>"

definition manual_request :: AppointmentScheduleCreate where
  "manual_request =
     \<lparr> sc_availability_id = 1, sc_date = 8,
       sc_start_time = 33000000000, sc_end_time = 34200000000 \<rparr>"

definition manual_slot :: AppointmentSchedule where
  "manual_slot = (slot_row 1 ''doc'' None 8 33000000000 34200000000 available)
                   \<lparr>sch_availability_id := Some 1\<rparr>"

definition manual_db :: db where
  "manual_db = window_db\<lparr>appointment_schedules := [manual_slot], schedule_seq := 2\<rparr>"

definition manual_db_after :: db where
  "manual_db_after = manual_db\<lparr>appointment_schedules :=
       [manual_slot,
        (slot_row 2 ''doc'' None 8 32400000000 33600000000 available)
          \<lparr>sch_availability_id := Some 1\<rparr>,
        (slot_row 3 ''doc'' None 8 33600000000 34800000000 available)
          \<lparr>sch_availability_id := Some 1\<rparr>],
     schedule_seq := 4\<rparr>"

definition interleaved_after :: db where
  "interleaved_after = complaint_after\<lparr>appointment_schedules :=
         [slot_row 1 ''doc'' (Some 8) 8 32400000000 33600000000 booked],
       clinic_visits := [visit_row 1 7 ''doc'' (Some 1) 8 V_pending,
                         visit_row 2 8 ''doc'' (Some 1) 8 V_pending],
       visit_seq := 3,
       complaints := [\<lparr> cp_complaint_id = 1, cp_visit_id = 1, cp_student_id = 7,
                          cp_complaint_description = ''fever'' \<rparr>,
                      \<lparr> cp_complaint_id = 2, cp_visit_id = 2, cp_student_id = 8,
                          cp_complaint_description = ''cough'' \<rparr>],
       complaint_seq := 3\<rparr>"

section \<open>Slot generator\<close>

lemma scalar_one_or_none_cases:
  "scalar_one_or_none xs =
     (if xs = [] then Inr None
      else if length xs \<le> 1 then Inr (Some (hd xs)) else Inl MultipleResultsFound)"
  by (cases xs rule: scalar_one_or_none.cases) auto

lemma add_intervals_closed:
  "add_intervals d avail sd cs added =
     (if list_all (\<lambda>c. length (interval_rows d avail sd c) \<le> 1) cs
      then Inr (added @ map (interval_slot avail sd)
                          (filter (\<lambda>c. interval_rows d avail sd c = []) cs))
      else Inl MultipleResultsFound)"
proof (induction cs arbitrary: added)
  case Nil
  show ?case by simp
next
  case (Cons c cs)
  obtain a b where c: "c = (a, b)" by (cases c)
  show ?case
    unfolding c
    by (simp add: Cons.IH scalar_one_or_none_cases interval_rows_def interval_slot_def)
qed

lemma loop_intervals_done: "end < cur + minutes20 \<Longrightarrow> loop_intervals cur end = []"
  by (simp add: loop_intervals_def minutes20_def)

lemma loop_intervals_step:
  assumes "cur + minutes20 \<le> end"
  shows "loop_intervals cur end = (cur, cur + minutes20) # loop_intervals (cur + minutes20) end"
proof -
  have pos: "0 < minutes20" by (simp add: minutes20_def)
  have "(end - cur) div minutes20 = Suc ((end - (cur + minutes20)) div minutes20)"
    using assms pos le_div_geq[of minutes20 "end - cur"] by (simp add: diff_diff_left[symmetric] del: diff_diff_left)
  then show ?thesis
    by (simp add: loop_intervals_def upt_conv_Cons map_Suc_upt[symmetric] del: upt_Suc add: algebra_simps)
qed

lemma slot_loop_intervals:
  "slot_loop d avail sd cur end added = add_intervals d avail sd (loop_intervals cur end) added"
proof (induction d avail sd cur "end" added rule: slot_loop.induct)
  case (1 d avail sd cur "end" added)
  show ?case
  proof (cases "cur + minutes20 \<le> end")
    case True
    then have lt: "cur < end" by (simp add: minutes20_def)
    show ?thesis
      using True lt 1
      by (subst slot_loop.simps) (auto simp: loop_intervals_step Let_def split: sum.splits)
  next
    case False
    then show ?thesis
      by (subst slot_loop.simps) (simp add: loop_intervals_done Let_def)
  qed
qed

lemma slot_loop_closed:
  "slot_loop d avail sd (combine sd (av_start_time avail)) (combine sd (av_end_time avail)) added =
     (if occurrence_ok d avail sd then Inr (added @ occurrence_rows d avail sd)
      else Inl MultipleResultsFound)"
  by (simp add: slot_loop_intervals add_intervals_closed occurrence_ok_def occurrence_rows_def
        occurrence_intervals_def)

lemma dates_loop_closed:
  "dates_loop d avail ds added =
     (if list_all (occurrence_ok d avail) ds
      then Inr (added @ concat (map (occurrence_rows d avail) ds))
      else Inl MultipleResultsFound)"
proof (induction ds arbitrary: added)
  case Nil
  show ?case by simp
next
  case (Cons sd ds)
  show ?case by (simp add: slot_loop_closed Cons.IH)
qed

lemma avail_loop_closed:
  "avail_loop d today avs added =
     (if list_all (window_ok d today) avs
      then Inr (added @ concat (map (window_rows d today) avs))
      else Inl MultipleResultsFound)"
proof (induction avs arbitrary: added)
  case Nil
  show ?case by simp
next
  case (Cons av avs)
  have "dates_loop d av (get_next_week_dates_for_day today (day_value (av_day_of_week av))) added =
          (if window_ok d today av then Inr (added @ window_rows d today av)
           else Inl MultipleResultsFound)"
    by (simp add: dates_loop_closed window_ok_def window_rows_def window_dates_def)
  then show ?case
    by (simp add: Cons.IH)
qed

lemma generate_schedules_closed:
  "generate_schedules today d =
     (if list_all (window_ok d today) (active_windows d)
      then (Inr (),
            d\<lparr>appointment_schedules :=
                 appointment_schedules d @ assign_ids (schedule_seq d) (run_rows today d),
              schedule_seq := schedule_seq d + length (run_rows today d)\<rparr>)
      else (Inl MultipleResultsFound, d))"
  by (simp add: generate_schedules_def avail_loop_closed active_windows_def run_rows_def)

lemma assign_ids_mem:
  "r \<in> set rs \<Longrightarrow> \<exists>k. r\<lparr>sch_schedule_id := k\<rparr> \<in> set (assign_ids n rs)"
proof (induction rs arbitrary: n)
  case Nil
  then show ?case by simp
next
  case (Cons x xs)
  show ?case
  proof (cases "r = x")
    case True
    then show ?thesis by (intro exI[of _ n]) simp
  next
    case False
    with Cons.prems have "r \<in> set xs" by simp
    from Cons.IH[OF this, of "Suc n"] show ?thesis by auto
  qed
qed

lemma interval_rows_mono:
  assumes "set (appointment_schedules d) \<subseteq> set (appointment_schedules d')"
    and "interval_rows d avail sd c \<noteq> []"
  shows "interval_rows d' avail sd c \<noteq> []"
  using assms
  by (auto simp: interval_rows_def existing_query_def filter_empty_conv)

lemma interval_slot_found:
  assumes "(interval_slot avail sd c)\<lparr>sch_schedule_id := k\<rparr> \<in> set (appointment_schedules d')"
  shows "interval_rows d' avail sd c \<noteq> []"
  using assms
  by (force simp: interval_rows_def existing_query_def filter_empty_conv interval_slot_def
        generated_slot_def)

lemma covered_after_run:
  assumes av: "avail \<in> set (active_windows d)"
    and sd: "sd \<in> set (window_dates today avail)"
    and c: "c \<in> set (occurrence_intervals avail sd)"
    and d': "appointment_schedules d' =
               appointment_schedules d @ assign_ids n (run_rows today d)"
  shows "interval_rows d' avail sd c \<noteq> []"
proof (cases "interval_rows d avail sd c = []")
  case False
  then show ?thesis
    using interval_rows_mono[of d d'] d' by simp
next
  case True
  with c have "interval_slot avail sd c \<in> set (occurrence_rows d avail sd)"
    by (simp add: occurrence_rows_def)
  with sd have "interval_slot avail sd c \<in> set (window_rows d today avail)"
    by (auto simp: window_rows_def)
  with av have "interval_slot avail sd c \<in> set (run_rows today d)"
    by (auto simp: run_rows_def)
  from assign_ids_mem[OF this, of n] obtain k where
    "(interval_slot avail sd c)\<lparr>sch_schedule_id := k\<rparr> \<in> set (assign_ids n (run_rows today d))"
    by blast
  then have "(interval_slot avail sd c)\<lparr>sch_schedule_id := k\<rparr> \<in> set (appointment_schedules d')"
    by (simp add: d')
  then show ?thesis by (rule interval_slot_found)
qed

lemma run_rows_empty_when_covered:
  assumes "\<And>avail sd c. avail \<in> set (active_windows d') \<Longrightarrow> sd \<in> set (window_dates today avail)
             \<Longrightarrow> c \<in> set (occurrence_intervals avail sd) \<Longrightarrow> interval_rows d' avail sd c \<noteq> []"
  shows "run_rows today d' = []"
  using assms
  by (auto simp: run_rows_def window_rows_def occurrence_rows_def filter_empty_conv)

lemma next_monday_mod: "(today + (7 - (today + 6) mod 7) + 6) mod 7 = (0::nat)"
  by presburger

lemma weekday_next_monday: "weekday (today + (7 - weekday today)) = 0"
  unfolding weekday_def by (rule next_monday_mod)

lemma weekday_in_next_week:
  assumes "i < 7"
  shows "weekday (today + (7 - weekday today) + i) = i"
proof -
  define nm where "nm = today + (7 - (today + 6) mod 7)"
  have z: "(nm + 6) mod 7 = 0"
    unfolding nm_def by (rule next_monday_mod)
  have "(nm + i + 6) mod 7 = ((nm + 6) + i) mod 7"
    by (simp only: ac_simps)
  also have "\<dots> = ((nm + 6) mod 7 + i) mod 7"
    by (simp only: mod_add_left_eq)
  also have "\<dots> = i"
    using assms by (simp only: z) simp
  finally show ?thesis
    by (simp only: weekday_def nm_def)
qed

lemma comprehension_filter:
  "concat (map (\<lambda>i. if P i then [f i] else []) xs) = map f (filter P xs)"
  by (induction xs) auto

lemma next_week_dates_filter:
  "get_next_week_dates_for_day today dn =
     map (\<lambda>i. today + (7 - weekday today) + i)
         (filter (\<lambda>i. calendar_day_name ! i = dn) [0..<7])"
proof -
  have "filter (\<lambda>i. calendar_day_name ! weekday (today + (7 - weekday today) + i) = dn) [0..<7]
        = filter (\<lambda>i. calendar_day_name ! i = dn) [0..<7]"
  proof (rule filter_cong[OF refl])
    fix x :: nat assume "x \<in> set [0..<7]"
    then have "x < 7" by simp
    then show "(calendar_day_name ! weekday (today + (7 - weekday today) + x) = dn) =
               (calendar_day_name ! x = dn)"
      by (simp only: weekday_in_next_week)
  qed
  then show ?thesis
    by (simp only: get_next_week_dates_for_day_def Let_def comprehension_filter)
qed

lemma day_name_positions:
  "\<exists>i<7. filter (\<lambda>i. calendar_day_name ! i = day_value day) [0..<7] = [i]
         \<and> calendar_day_name ! i = day_value day"
proof -
  have u: "[0..<7] = [0, 1, 2, 3, 4, 5, 6::nat]"
    by (simp add: upt_rec)
  show ?thesis
    unfolding u by (cases day) (simp_all add: calendar_day_name_def)
qed

lemma next_week_dates:
  "\<exists>i<7. get_next_week_dates_for_day today (day_value day) = [today + (7 - weekday today) + i]
         \<and> calendar_day_name ! i = day_value day"
proof -
  from day_name_positions[of day] obtain i where
    "i < 7" "filter (\<lambda>i. calendar_day_name ! i = day_value day) [0..<7] = [i]"
    "calendar_day_name ! i = day_value day" by blast
  then show ?thesis
    by (intro exI[of _ i]) (simp add: next_week_dates_filter)
qed

lemma dt_time_combine: "valid_time t \<Longrightarrow> dt_time (combine sd t) = t"
  by (simp add: dt_time_def combine_def valid_time_def)

lemma combine_add: "combine sd t + x = combine sd (t + x)"
  by (simp add: combine_def)

lemma combine_diff: "combine sd e - combine sd s = e - s"
  by (simp add: combine_def)

lemma occurrence_intervals_eq:
  "occurrence_intervals avail sd =
     map (\<lambda>i. (combine sd (av_start_time avail + i * minutes20),
               combine sd (av_start_time avail + i * minutes20 + minutes20)))
         [0..<(av_end_time avail - av_start_time avail) div minutes20]"
  by (simp add: occurrence_intervals_def loop_intervals_def combine_diff combine_def ac_simps)

lemma tile_bound:
  assumes "i < (e - s) div minutes20" "s < e"
  shows "s + i * minutes20 + minutes20 \<le> (e::nat)"
proof -
  have "Suc i * minutes20 \<le> ((e - s) div minutes20) * minutes20"
    using assms(1) by (intro mult_le_mono1) simp
  also have "\<dots> \<le> e - s" by simp
  finally show ?thesis using assms(2) by simp
qed

lemma occurrence_rows_eq:
  assumes "av_start_time avail < av_end_time avail" "valid_time (av_end_time avail)"
  shows "occurrence_rows d avail sd =
     map (\<lambda>i. generated_slot avail sd (av_start_time avail + i * minutes20)
                 (av_start_time avail + i * minutes20 + minutes20))
       (filter (\<lambda>i. existing_query d (av_doctor_id avail) sd (av_start_time avail + i * minutes20)
                       (av_start_time avail + i * minutes20 + minutes20) = [])
          [0..<(av_end_time avail - av_start_time avail) div minutes20])"
proof -
  let ?s = "av_start_time avail" and ?e = "av_end_time avail"
  let ?k = "(?e - ?s) div minutes20"
  have v: "valid_time (?s + i * minutes20) \<and> valid_time (?s + i * minutes20 + minutes20)"
    if "i < ?k" for i
    using tile_bound[OF that assms(1)] assms(2) by (simp add: valid_time_def)
  have rows: "interval_rows d avail sd
                (combine sd (?s + i * minutes20), combine sd (?s + i * minutes20 + minutes20)) =
              existing_query d (av_doctor_id avail) sd (?s + i * minutes20)
                (?s + i * minutes20 + minutes20)" if "i < ?k" for i
    using v[OF that] by (simp add: interval_rows_def dt_time_combine)
  have slot: "interval_slot avail sd
                (combine sd (?s + i * minutes20), combine sd (?s + i * minutes20 + minutes20)) =
              generated_slot avail sd (?s + i * minutes20) (?s + i * minutes20 + minutes20)"
    if "i < ?k" for i
    using v[OF that] by (simp add: interval_slot_def dt_time_combine)
  have f: "filter ((\<lambda>c. interval_rows d avail sd c = []) \<circ>
                   (\<lambda>i. (combine sd (?s + i * minutes20), combine sd (?s + i * minutes20 + minutes20))))
             [0..<?k] =
           filter (\<lambda>i. existing_query d (av_doctor_id avail) sd (?s + i * minutes20)
                         (?s + i * minutes20 + minutes20) = []) [0..<?k]"
    by (rule filter_cong[OF refl]) (simp add: rows)
  show ?thesis
    unfolding occurrence_rows_def occurrence_intervals_eq filter_map map_map f
    by (rule map_cong[OF refl]) (simp add: slot)
qed

lemma drop_append_self: "drop (length xs) (xs @ ys) = ys"
  by simp

lemmas generator_eval =
  generate_schedules_closed active_windows_def run_rows_def window_ok_def window_rows_def
  window_dates_def next_week_dates_filter occurrence_ok_def occurrence_rows_def
  occurrence_intervals_def loop_intervals_def interval_rows_def interval_slot_def
  existing_query_def generated_slot_def combine_def dt_time_def minutes20_def day_us_def
  weekday_def calendar_day_name_def upt_rec

lemma window_db_run: "generate_schedules 1 window_db = (Inr (), window_db_after)"
  by (simp add: generator_eval window_db_def window_db_after_def monday_window_def empty_db_def
        slot_row_def)

text \<open>
  C2. Let an active availability window have start \<open>s\<close> and end \<open>e\<close>, \<open>s < e\<close>, and
  let \<open>k = (e - s) div 20min\<close>. In a generator run that completes, the window has
  exactly one matching date \<open>sd\<close>; it lies in the Monday-to-Sunday week that starts
  at the first Monday after today and has the window's day of week. For that date the
  loop visits exactly the \<open>k\<close> sub-intervals \<open>[s + 20i, s + 20i + 20)\<close>, \<open>i < k\<close>,
  which tile \<open>[s, s + 20k)\<close> consecutively; what is left of the window after them is
  shorter than 20 minutes and gets no slot. The loop adds an \<open>available\<close> row for each
  of these sub-intervals that has no committed row for the exact (doctor, date, start,
  end) tuple, so all \<open>k\<close> rows when none exists yet; after the run each of the \<open>k\<close>
  sub-intervals has a row in the table, and each row the loop added is among the rows
  the run inserted.
\<close>

theorem generated_slots_tile_window:
  fixes today :: pydate and d d' :: db and avail :: Availability
  defines "s \<equiv> av_start_time avail"
    and "e \<equiv> av_end_time avail"
    and "next_monday \<equiv> today + (7 - weekday today)"
  defines "k \<equiv> (e - s) div minutes20"
  assumes win: "avail \<in> set (availabilities d)" "av_status avail = active"
    and range: "s < e" "valid_time e"
    and run: "generate_schedules today d = (Inr (), d')"
  shows "\<exists>sd. get_next_week_dates_for_day today (day_value (av_day_of_week avail)) = [sd]
      \<and> today < next_monday \<and> next_monday \<le> today + 7 \<and> weekday next_monday = 0
      \<and> next_monday \<le> sd \<and> sd \<le> next_monday + 6
      \<and> calendar_day_name ! weekday sd = day_value (av_day_of_week avail)
      \<and> s + k * minutes20 \<le> e \<and> e < s + k * minutes20 + minutes20
      \<and> (\<forall>added. slot_loop d avail sd (combine sd s) (combine sd e) added =
            Inr (added @
                 map (\<lambda>i. generated_slot avail sd (s + i * minutes20) (s + i * minutes20 + minutes20))
                   (filter (\<lambda>i. existing_query d (av_doctor_id avail) sd (s + i * minutes20)
                                   (s + i * minutes20 + minutes20) = []) [0..<k])))
      \<and> (\<forall>i<k. \<exists>r \<in> set (appointment_schedules d').
              sch_doctor_id r = av_doctor_id avail \<and> sch_date r = sd \<and>
              sch_start_time r = s + i * minutes20 \<and>
              sch_end_time r = s + i * minutes20 + minutes20)
      \<and> (\<forall>i<k. existing_query d (av_doctor_id avail) sd (s + i * minutes20)
                   (s + i * minutes20 + minutes20) = [] \<longrightarrow>
              (\<exists>n. (generated_slot avail sd (s + i * minutes20) (s + i * minutes20 + minutes20))
                       \<lparr>sch_schedule_id := n\<rparr>
                    \<in> set (drop (length (appointment_schedules d)) (appointment_schedules d'))))"
proof -
  from next_week_dates[of today "av_day_of_week avail"] obtain j where
    j: "j < 7"
    and dates: "get_next_week_dates_for_day today (day_value (av_day_of_week avail)) =
                  [next_monday + j]"
    and name: "calendar_day_name ! j = day_value (av_day_of_week avail)"
    unfolding next_monday_def by blast
  define sd where "sd = next_monday + j"
  have wd: "weekday today < 7" by (simp add: weekday_def)
  have wsd: "weekday sd = j"
    unfolding sd_def next_monday_def using j by (rule weekday_in_next_week)
  have act: "avail \<in> set (active_windows d)"
    using win by (simp add: active_windows_def)
  have sdw: "sd \<in> set (window_dates today avail)"
    by (simp add: window_dates_def dates sd_def)
  have ok_all: "list_all (window_ok d today) (active_windows d)"
    and d': "d' = d\<lparr>appointment_schedules :=
                 appointment_schedules d @ assign_ids (schedule_seq d) (run_rows today d),
              schedule_seq := schedule_seq d + length (run_rows today d)\<rparr>"
    using run by (auto simp: generate_schedules_closed split: if_splits)
  have sch: "appointment_schedules d' =
               appointment_schedules d @ assign_ids (schedule_seq d) (run_rows today d)"
    by (simp add: d')
  have ok: "occurrence_ok d avail sd"
    using ok_all act sdw by (auto simp: list_all_iff window_ok_def)
  have rows: "occurrence_rows d avail sd =
     map (\<lambda>i. generated_slot avail sd (s + i * minutes20) (s + i * minutes20 + minutes20))
       (filter (\<lambda>i. existing_query d (av_doctor_id avail) sd (s + i * minutes20)
                       (s + i * minutes20 + minutes20) = []) [0..<k])"
    unfolding s_def e_def k_def
    using range by (intro occurrence_rows_eq) (simp_all add: s_def e_def)
  have loop: "slot_loop d avail sd (combine sd s) (combine sd e) added =
                Inr (added @ occurrence_rows d avail sd)" for added
    unfolding s_def e_def using ok by (simp add: slot_loop_closed)
  have valid: "valid_time (s + i * minutes20) \<and> valid_time (s + i * minutes20 + minutes20)"
    if "i < k" for i
    using tile_bound[of i e s] that range by (simp add: k_def valid_time_def)
  have present: "\<exists>r \<in> set (appointment_schedules d').
              sch_doctor_id r = av_doctor_id avail \<and> sch_date r = sd \<and>
              sch_start_time r = s + i * minutes20 \<and>
              sch_end_time r = s + i * minutes20 + minutes20" if "i < k" for i
  proof -
    let ?c = "(combine sd (s + i * minutes20), combine sd (s + i * minutes20 + minutes20))"
    have "?c \<in> set (occurrence_intervals avail sd)"
      unfolding occurrence_intervals_eq using that by (auto simp: s_def e_def k_def)
    from covered_after_run[OF act sdw this sch]
    have "interval_rows d' avail sd ?c \<noteq> []" .
    then show ?thesis
      using valid[OF that]
      by (auto simp: interval_rows_def existing_query_def filter_empty_conv dt_time_combine)
  qed
  have fresh: "\<exists>n. (generated_slot avail sd (s + i * minutes20) (s + i * minutes20 + minutes20))
                       \<lparr>sch_schedule_id := n\<rparr>
                    \<in> set (drop (length (appointment_schedules d)) (appointment_schedules d'))"
    if "i < k" and "existing_query d (av_doctor_id avail) sd (s + i * minutes20)
                   (s + i * minutes20 + minutes20) = []" for i
  proof -
    have "generated_slot avail sd (s + i * minutes20) (s + i * minutes20 + minutes20)
            \<in> set (occurrence_rows d avail sd)"
      unfolding rows using that by auto
    with sdw have "generated_slot avail sd (s + i * minutes20) (s + i * minutes20 + minutes20)
            \<in> set (window_rows d today avail)"
      by (auto simp: window_rows_def)
    with act have "generated_slot avail sd (s + i * minutes20) (s + i * minutes20 + minutes20)
            \<in> set (run_rows today d)"
      by (auto simp: run_rows_def)
    from assign_ids_mem[OF this, of "schedule_seq d"] show ?thesis
      by (simp only: sch drop_append_self)
  qed
  have rem: "s + k * minutes20 \<le> e \<and> e < s + k * minutes20 + minutes20"
  proof -
    have pos: "0 < minutes20" by (simp add: minutes20_def)
    have "k * minutes20 \<le> e - s" by (simp add: k_def)
    moreover have "e - s < k * minutes20 + minutes20"
      using pos dividend_less_times_div[of minutes20 "e - s"] by (simp add: k_def ac_simps)
    ultimately show ?thesis using range(1) by linarith
  qed
  have nm: "today < next_monday \<and> next_monday \<le> today + 7 \<and> weekday next_monday = 0"
    unfolding next_monday_def using wd weekday_next_monday[of today] by linarith
  show ?thesis
    apply (rule exI[of _ sd])
    using dates nm j wsd name rem loop rows present fresh
    by (simp add: sd_def)
qed

theorem generated_slots_tile_window_witness:
  "monday_window \<in> set (availabilities window_db) \<and> av_status monday_window = active \<and>
   av_start_time monday_window < av_end_time monday_window \<and>
   valid_time (av_end_time monday_window) \<and>
   generate_schedules 1 window_db = (Inr (), window_db_after) \<and>
   get_next_week_dates_for_day 1 (day_value (av_day_of_week monday_window)) = [8] \<and>
   (av_end_time monday_window - av_start_time monday_window) div minutes20 = 2 \<and>
   slot_loop window_db monday_window 8 (combine 8 (av_start_time monday_window))
     (combine 8 (av_end_time monday_window)) [] =
     Inr [generated_slot monday_window 8 32400000000 33600000000,
          generated_slot monday_window 8 33600000000 34800000000]"
proof -
  have h1: "monday_window \<in> set (availabilities window_db)"
    by (simp add: window_db_def empty_db_def)
  have h2: "av_status monday_window = active"
    by (simp add: monday_window_def)
  have h3: "av_start_time monday_window < av_end_time monday_window"
    by (simp add: monday_window_def)
  have h4: "valid_time (av_end_time monday_window)"
    by (simp add: monday_window_def valid_time_def day_us_def)
  have k: "(av_end_time monday_window - av_start_time monday_window) div minutes20 = 2"
    by (simp add: monday_window_def minutes20_def)
  have dates: "get_next_week_dates_for_day 1 (day_value (av_day_of_week monday_window)) = [8]"
    by (simp add: monday_window_def next_week_dates_filter weekday_def calendar_day_name_def
          upt_rec)
  from generated_slots_tile_window [OF h1 h2 h3 h4 window_db_run]
  obtain sd where
    sd: "get_next_week_dates_for_day 1 (day_value (av_day_of_week monday_window)) = [sd]"
    and loop: "\<forall>added. slot_loop window_db monday_window sd
        (combine sd (av_start_time monday_window)) (combine sd (av_end_time monday_window)) added =
        Inr (added @
             map (\<lambda>i. generated_slot monday_window sd
                         (av_start_time monday_window + i * minutes20)
                         (av_start_time monday_window + i * minutes20 + minutes20))
               (filter (\<lambda>i. existing_query window_db (av_doctor_id monday_window) sd
                               (av_start_time monday_window + i * minutes20)
                               (av_start_time monday_window + i * minutes20 + minutes20) = [])
                  [0..<(av_end_time monday_window - av_start_time monday_window) div minutes20]))"
    by blast
  have sd8: "sd = 8" using sd dates by simp
  have "slot_loop window_db monday_window 8 (combine 8 (av_start_time monday_window))
          (combine 8 (av_end_time monday_window)) [] =
        Inr [generated_slot monday_window 8 32400000000 33600000000,
             generated_slot monday_window 8 33600000000 34800000000]"
    using loop [rule_format, of "[]"] unfolding sd8 k
    by (simp add: upt_rec existing_query_def window_db_def empty_db_def monday_window_def
          minutes20_def)
  with h1 h2 h3 h4 k dates window_db_run show ?thesis by simp
qed

text \<open>
  C3. Running the generator twice in a row (same current date, availability windows
  unchanged) leaves the database, and so the slot table, identical to running it once:
  the second run inserts no row. After the first run every sub-interval of every active
  window has a committed row for its exact (doctor, date, start, end) tuple, so the
  duplicate query of the second run finds one each time.
\<close>

theorem generate_schedules_idempotent:
  "snd (generate_schedules today (snd (generate_schedules today d))) =
     snd (generate_schedules today d)"
proof (cases "list_all (window_ok d today) (active_windows d)")
  case False
  then show ?thesis by (simp add: generate_schedules_closed)
next
  case True
  define d' where "d' = snd (generate_schedules today d)"
  have sch: "appointment_schedules d' =
               appointment_schedules d @ assign_ids (schedule_seq d) (run_rows today d)"
    and act: "active_windows d' = active_windows d"
    using True by (simp_all add: d'_def generate_schedules_closed active_windows_def)
  have "run_rows today d' = []"
  proof (rule run_rows_empty_when_covered)
    fix avail sd c
    assume "avail \<in> set (active_windows d')" "sd \<in> set (window_dates today avail)"
      "c \<in> set (occurrence_intervals avail sd)"
    then show "interval_rows d' avail sd c \<noteq> []"
      using covered_after_run[OF _ _ _ sch] act by simp
  qed
  then have "snd (generate_schedules today d') = d'"
    by (simp add: generate_schedules_closed)
  then show ?thesis by (simp add: d'_def)
qed

theorem generate_schedules_idempotent_witness:
  "generate_schedules 1 window_db = (Inr (), window_db_after) \<and>
   length (appointment_schedules window_db_after) = 2 \<and>
   snd (generate_schedules 1 window_db_after) = window_db_after"
  using generate_schedules_idempotent [of 1 window_db] window_db_run
  by (simp add: window_db_after_def)

section \<open>Slot cleaner\<close>

lemma count_list_filter:
  "count_list (filter P xs) x = (if P x then count_list xs x else 0)"
  by (induction xs) auto

text \<open>
  When no row the statement would delete is referenced by a visit, the cleaner deletes
  exactly the slots dated strictly before \<open>D\<close> whose status is \<open>available\<close>:
  every other row is kept with its multiplicity, the reported row count is the number
  of deleted rows, and no other table changes.
\<close>

lemma cleanup_deletes_exactly_when_unreferenced:
  fixes D :: pydate and d :: db
  defines "d' \<equiv> snd (cleanup_past_schedules D d)"
  assumes "\<not> list_ex (\<lambda>r. (sch_date r < D \<and> sch_status r = available) \<and>
                         list_ex (\<lambda>v. vis_schedule_id v = Some (sch_schedule_id r))
                                 (clinic_visits d))
                    (appointment_schedules d)"
  shows "(\<forall>r. r \<in> set (appointment_schedules d') \<longleftrightarrow>
              r \<in> set (appointment_schedules d) \<and>
              \<not> (sch_date r < D \<and> sch_status r = available))
       \<and> (\<forall>r. \<not> (sch_date r < D \<and> sch_status r = available) \<longrightarrow>
              count_list (appointment_schedules d') r = count_list (appointment_schedules d) r)
       \<and> fst (cleanup_past_schedules D d) =
            Inr (length (filter (\<lambda>r. sch_date r < D \<and> sch_status r = available)
                           (appointment_schedules d)))
       \<and> clinic_visits d' = clinic_visits d \<and> availabilities d' = availabilities d"
proof -
  have run: "cleanup_past_schedules D d =
      (Inr (length (filter (\<lambda>r. sch_date r < D \<and> sch_status r = available)
                     (appointment_schedules d))),
       d\<lparr>appointment_schedules :=
            filter (\<lambda>r. \<not> (sch_date r < D \<and> sch_status r = available))
                   (appointment_schedules d)\<rparr>)"
    using assms(2) by (simp add: cleanup_past_schedules_def Let_def)
  show ?thesis
    unfolding d'_def run by (auto simp: count_list_filter)
qed

lemma cleanup_unreferenced_run:
  "cleanup_past_schedules 10 cleaner_db =
     (Inr 1, cleaner_db\<lparr>appointment_schedules :=
        [slot_row 2 ''doc'' (Some 7) 5 minutes20 (2 * minutes20) booked,
         slot_row 3 ''doc'' None 12 0 minutes20 available]\<rparr>)"
  by (simp add: cleaner_db_def empty_db_def slot_row_def cleanup_past_schedules_def Let_def
        minutes20_def)

text \<open>
  C8, evaluated at a table with two slots dated before the current date and still
  \<open>available\<close>, the first of them referenced by a visit (a doctor recorded the visit
  with that schedule id; the slot's status is not changed by that). The \<open>DELETE\<close>
  breaks the foreign key of the visit, the job ends with \<open>IntegrityError\<close>, and
  both slots are still in the table.
\<close>

theorem cleanup_blocked_by_referenced_slot:
  "appointment_schedules referenced_slot_db =
     [slot_row 1 ''doc'' None 5 0 minutes20 available,
      slot_row 2 ''doc'' None 5 minutes20 (2 * minutes20) available]
   \<and> sch_date (slot_row 1 ''doc'' None 5 0 minutes20 available) < 10
   \<and> sch_date (slot_row 2 ''doc'' None 5 minutes20 (2 * minutes20) available) < 10
   \<and> vis_schedule_id (visit_row 1 7 ''doc'' (Some 1) 5 V_pending) = Some 1
   \<and> cleanup_past_schedules 10 referenced_slot_db = (Inl IntegrityError, referenced_slot_db)"
  by (simp add: referenced_slot_db_def empty_db_def slot_row_def visit_row_def
        cleanup_past_schedules_def Let_def minutes20_def)

section \<open>Booking engine\<close>

lemma scalar_one_or_none_Some: "scalar_one_or_none xs = Inr (Some x) \<longleftrightarrow> xs = [x]"
  by (cases xs rule: scalar_one_or_none.cases) auto

lemma scalar_one_or_none_None: "scalar_one_or_none xs = Inr None \<longleftrightarrow> xs = []"
  by (cases xs rule: scalar_one_or_none.cases) auto

lemma filter_singleton: "filter P xs = [x] \<Longrightarrow> x \<in> set xs \<and> P x"
proof -
  assume a: "filter P xs = [x]"
  have "x \<in> set (filter P xs)" by (simp add: a)
  then show ?thesis by simp
qed


lemma book_schedule_in_transaction:
  "p_role cu = ''student'' \<Longrightarrow> book_schedule True sid cu d = (Inl InvalidRequestError, d)"
  by (simp add: book_schedule_def)



lemma book_schedule_unused_session:
  "book_schedule False 1 student7 (one_slot_db None booked) =
     (Inl InvalidRequestError, booking_after)"
  by (simp add: book_schedule_def Let_def update_schedule_row_def one_slot_db_def empty_db_def
        slot_row_def visit_row_def student7_def booking_after_def)



text \<open>
  Whatever \<open>create_visit_and_complaint\<close> raises reaches the caller as status 500:
  the 404 and 400 of its body are caught by its own \<open>except Exception\<close>.
\<close>

lemma create_visit_and_complaint_failure_is_500:
  "create_visit_and_complaint sid descr cu d = (Inl e, d') \<Longrightarrow> e = HTTPException 500 \<and> d' = d"
  by (auto simp: create_visit_and_complaint_def create_visit_and_complaint_body_def Let_def
      split: sum.splits option.splits prod.splits)

text \<open>
  C5, evaluated at a claim of a slot id that does not exist and at a claim of a slot
  that is already claimed. \<open>book_schedule\<close> does not reach its own status 400: the
  \<open>InvalidRequestError\<close> of its transaction block leaves the handler and the caller
  sees status 500. \<open>create_visit_and_complaint\<close> raises its status 404 inside its
  \<open>try\<close> block and answers with status 500.
\<close>

theorem claim_failures_are_answered_500:
  "appointment_schedules empty_db = []
   \<and> book_schedule True 99 student7 empty_db = (Inl InvalidRequestError, empty_db)
   \<and> http_status InvalidRequestError = 500
   \<and> create_visit_and_complaint 99 ''fever'' student7 empty_db =
        (Inl (HTTPException 500), empty_db)
   \<and> appointment_schedules complaint_after =
        [slot_row 1 ''doc'' (Some 7) 8 32400000000 33600000000 booked]
   \<and> book_schedule True 1 student8 complaint_after = (Inl InvalidRequestError, complaint_after)
   \<and> create_visit_and_complaint 1 ''cough'' student8 complaint_after =
        (Inl (HTTPException 500), complaint_after)"
  by (simp add: book_schedule_def create_visit_and_complaint_def
        create_visit_and_complaint_body_def empty_db_def student7_def student8_def
        complaint_after_def one_slot_db_def slot_row_def)

lemma cancel_booked_run:
  "cancel_schedule 1 doctor_doc (one_slot_db (Some 7) booked) =
     (Inr (slot_row 1 ''doc'' (Some 7) 8 32400000000 33600000000 cancelled),
      one_slot_db (Some 7) cancelled)"
  by (simp add: cancel_schedule_def get_current_doctor_def update_schedule_row_def doctor_doc_def
        one_slot_db_def empty_db_def slot_row_def)

text \<open>
  C6, as the code has it. A cancel succeeds only for a doctor, on an existing slot of
  that doctor whose status is not \<open>cancelled\<close>; on such a slot it succeeds from
  every other status (\<open>available\<close>, \<open>booked\<close>, \<open>pending\<close> and also
  \<open>completed\<close>) and sets the status to \<open>cancelled\<close>; on a slot that is already
  \<open>cancelled\<close> it is rejected with status 400 and the database is unchanged.
\<close>

theorem cancel_schedule_rejects_only_cancelled:
  "(cancel_schedule sid u d = (Inr x, d') \<longrightarrow>
      (\<exists>r. filter (\<lambda>r. sch_schedule_id r = sid) (appointment_schedules d) = [r] \<and>
           p_role u = ''doctor'' \<and> sch_doctor_id r = p_user_id u \<and>
           sch_status r \<noteq> cancelled))
   \<and> (p_role u = ''doctor'' \<and>
        filter (\<lambda>r. sch_schedule_id r = sid) (appointment_schedules d) = [r] \<and>
        sch_doctor_id r = p_user_id u \<longrightarrow>
        cancel_schedule sid u d =
          (if sch_status r = cancelled then (Inl (HTTPException 400), d)
           else (Inr (r\<lparr>sch_status := cancelled\<rparr>),
                 d\<lparr>appointment_schedules :=
                      map (\<lambda>x. if sch_schedule_id x = sid then x\<lparr>sch_status := cancelled\<rparr> else x)
                          (appointment_schedules d)\<rparr>)))"
proof (intro conjI impI)
  assume "cancel_schedule sid u d = (Inr x, d')"
  then show "\<exists>r. filter (\<lambda>r. sch_schedule_id r = sid) (appointment_schedules d) = [r] \<and>
           p_role u = ''doctor'' \<and> sch_doctor_id r = p_user_id u \<and> sch_status r \<noteq> cancelled"
    by (auto simp: cancel_schedule_def get_current_doctor_def scalar_one_or_none_Some
        split: if_splits sum.splits option.splits)
next
  assume a: "p_role u = ''doctor'' \<and>
        filter (\<lambda>r. sch_schedule_id r = sid) (appointment_schedules d) = [r] \<and>
        sch_doctor_id r = p_user_id u"
  then have f: "filter (\<lambda>r. sch_schedule_id r = sid) (appointment_schedules d) = [r]" by simp
  from filter_singleton[OF f] have "sch_schedule_id r = sid" by simp
  then show "cancel_schedule sid u d =
          (if sch_status r = cancelled then (Inl (HTTPException 400), d)
           else (Inr (r\<lparr>sch_status := cancelled\<rparr>),
                 d\<lparr>appointment_schedules :=
                      map (\<lambda>x. if sch_schedule_id x = sid then x\<lparr>sch_status := cancelled\<rparr> else x)
                          (appointment_schedules d)\<rparr>))"
    using a by (simp add: cancel_schedule_def get_current_doctor_def update_schedule_row_def)
qed

theorem cancel_schedule_rejects_only_cancelled_witness:
  "p_role doctor_doc = ''doctor''
   \<and> filter (\<lambda>r. sch_schedule_id r = 1) (appointment_schedules (one_slot_db (Some 7) cancelled)) =
       [slot_row 1 ''doc'' (Some 7) 8 32400000000 33600000000 cancelled]
   \<and> sch_doctor_id (slot_row 1 ''doc'' (Some 7) 8 32400000000 33600000000 cancelled) =
       p_user_id doctor_doc
   \<and> cancel_schedule 1 doctor_doc (one_slot_db (Some 7) cancelled) =
       (Inl (HTTPException 400), one_slot_db (Some 7) cancelled)
   \<and> filter (\<lambda>r. sch_schedule_id r = 1) (appointment_schedules (one_slot_db (Some 7) booked)) =
       [slot_row 1 ''doc'' (Some 7) 8 32400000000 33600000000 booked]
   \<and> cancel_schedule 1 doctor_doc (one_slot_db (Some 7) booked) =
       (Inr (slot_row 1 ''doc'' (Some 7) 8 32400000000 33600000000 cancelled),
        one_slot_db (Some 7) cancelled)"
proof -
  have r: "p_role doctor_doc = ''doctor''" by (simp add: doctor_doc_def)
  have f: "filter (\<lambda>r. sch_schedule_id r = 1) (appointment_schedules (one_slot_db (Some 7) st)) =
       [slot_row 1 ''doc'' (Some 7) 8 32400000000 33600000000 st]" for st
    by (simp add: one_slot_db_def empty_db_def slot_row_def)
  have o: "sch_doctor_id (slot_row 1 ''doc'' (Some 7) 8 32400000000 33600000000 st) =
       p_user_id doctor_doc" for st
    by (simp add: slot_row_def doctor_doc_def)
  show ?thesis
    using cancel_schedule_rejects_only_cancelled
            [of 1 doctor_doc "one_slot_db (Some 7) cancelled", THEN conjunct2, rule_format,
             OF conjI [OF r conjI [OF f [of cancelled] o]]]
          cancel_schedule_rejects_only_cancelled
            [of 1 doctor_doc "one_slot_db (Some 7) booked", THEN conjunct2, rule_format,
             OF conjI [OF r conjI [OF f [of booked] o]]]
          cancel_schedule_rejects_only_cancelled
            [THEN conjunct1, rule_format, OF cancel_booked_run] r f o
    by (simp add: one_slot_db_def empty_db_def slot_row_def)
qed

text \<open>
  C6 as stated fails: a slot in status \<open>completed\<close> is cancelled.
\<close>

theorem completed_slot_can_be_cancelled:
  "sch_status (slot_row 1 ''doc'' (Some 7) 8 32400000000 33600000000 completed) = completed
   \<and> cancel_schedule 1 doctor_doc (one_slot_db (Some 7) completed) =
       (Inr (slot_row 1 ''doc'' (Some 7) 8 32400000000 33600000000 cancelled),
        one_slot_db (Some 7) cancelled)"
  by (simp add: cancel_schedule_def get_current_doctor_def update_schedule_row_def doctor_doc_def
        one_slot_db_def empty_db_def slot_row_def)

lemma complete_linked_schedule_rows:
  assumes "complete_linked_schedule visit d = (Inr u, d')"
    and "vis_schedule_id visit = Some sid" "sid \<noteq> 0"
    and "r \<in> set (appointment_schedules d)" "sch_schedule_id r = sid"
  shows "r\<lparr>sch_status := completed\<rparr> \<in> set (appointment_schedules d')"
proof -
  have t: "truthy (vis_schedule_id visit)" using assms(2,3) by simp
  have q: "filter (\<lambda>r. Some (sch_schedule_id r) = vis_schedule_id visit) (appointment_schedules d)
           = filter (\<lambda>r. sch_schedule_id r = sid) (appointment_schedules d)"
    by (simp add: assms(2))
  have ne: "filter (\<lambda>r. sch_schedule_id r = sid) (appointment_schedules d) \<noteq> []"
    using assms(4,5) by (auto simp: filter_empty_conv)
  obtain r0 where one: "filter (\<lambda>r. sch_schedule_id r = sid) (appointment_schedules d) = [r0]"
    using assms(1) t ne unfolding complete_linked_schedule_def q
    by (cases "filter (\<lambda>r. sch_schedule_id r = sid) (appointment_schedules d)"
          rule: scalar_one_or_none.cases) auto
  from filter_singleton[OF one] have r0: "sch_schedule_id r0 = sid" by simp
  have d': "d' = update_schedule_row sid (\<lambda>r. r\<lparr>sch_status := completed\<rparr>) d"
    using assms(1) t one r0 unfolding complete_linked_schedule_def q by simp
  have "appointment_schedules d' =
          map (\<lambda>x. if sch_schedule_id x = sid then x\<lparr>sch_status := completed\<rparr> else x)
              (appointment_schedules d)"
    by (simp add: d' update_schedule_row_def)
  then show ?thesis
    using assms(4,5) by (simp add: image_iff) (rule bexI[of _ r], simp_all)
qed

lemma complete_linked_schedule_other_tables:
  "clinic_visits (snd (complete_linked_schedule visit d)) = clinic_visits d
   \<and> doctor_diagnoses (snd (complete_linked_schedule visit d)) = doctor_diagnoses d"
  by (simp add: complete_linked_schedule_def update_schedule_row_def
      split: sum.splits option.splits)

lemma complete_visit_run:
  "complete_visit 1 doctor_doc (visit_db booked V_pending) =
     (Inr (visit_row 1 7 ''doc'' (Some 1) 8 V_completed), visit_db completed V_completed)"
  by (simp add: complete_visit_def complete_linked_schedule_def get_current_doctor_def
        update_visit_row_def update_schedule_row_def Let_def visit_db_def empty_db_def
        slot_row_def visit_row_def doctor_doc_def)

lemma create_diagnosis_run:
  "create_diagnosis diagnosis_request doctor_doc (visit_db cancelled V_pending) =
     (Inr diagnosis_row,
      (visit_db completed V_pending)\<lparr>doctor_diagnoses := [diagnosis_row], diagnosis_seq := 2\<rparr>)"
  by (simp add: create_diagnosis_def complete_linked_schedule_def get_current_doctor_def
        update_schedule_row_def Let_def visit_db_def empty_db_def slot_row_def visit_row_def
        doctor_doc_def diagnosis_request_def diagnosis_row_def)

text \<open>
  C7. \<open>complete_visit\<close> succeeds only for a doctor and a visit with that id that
  is \<open>pending\<close> and belongs to the doctor; on success the visit is returned and
  stored with status \<open>completed\<close>, and every slot row the visit references (a
  schedule id that Python takes as true, so not 0) has status \<open>completed\<close>
  afterwards, its other columns unchanged.
\<close>

theorem complete_visit_completes_visit_and_slot:
  assumes "complete_visit visit_id u d = (Inr v', d')"
  shows "\<exists>v \<in> set (clinic_visits d).
           vis_visit_id v = visit_id \<and> vis_status v = V_pending \<and>
           vis_doctor_id v = p_user_id u \<and> p_role u = ''doctor'' \<and>
           v' = v\<lparr>vis_status := V_completed\<rparr> \<and>
           v' \<in> set (clinic_visits d') \<and>
           (\<forall>w \<in> set (clinic_visits d'). vis_visit_id w = visit_id \<longrightarrow> vis_status w = V_completed) \<and>
           (\<forall>sid. vis_schedule_id v = Some sid \<and> sid \<noteq> 0 \<longrightarrow>
              (\<forall>r \<in> set (appointment_schedules d). sch_schedule_id r = sid \<longrightarrow>
                  r\<lparr>sch_status := completed\<rparr> \<in> set (appointment_schedules d')))"
proof -
  have role: "p_role u = ''doctor''"
    using assms by (cases "p_role u = ''doctor''") (simp_all add: complete_visit_def get_current_doctor_def)
  then have cu: "get_current_doctor u = Inr u"
    by (simp add: get_current_doctor_def)
  let ?q = "filter (\<lambda>v. vis_visit_id v = visit_id \<and> vis_doctor_id v = p_user_id u \<and>
                     vis_status v = V_pending) (clinic_visits d)"
  obtain v where f: "?q = [v]"
    using assms unfolding complete_visit_def cu
    by (cases ?q rule: scalar_one_or_none.cases) simp_all
  from filter_singleton[OF f] have v: "v \<in> set (clinic_visits d)" "vis_visit_id v = visit_id"
    "vis_doctor_id v = p_user_id u" "vis_status v = V_pending"
    by simp_all
  define d1 where "d1 = update_visit_row visit_id (\<lambda>v. v\<lparr>vis_status := V_completed\<rparr>) d"
  have step: "complete_visit visit_id u d =
      (case complete_linked_schedule (v\<lparr>vis_status := V_completed\<rparr>) d1 of
         (Inl e, d2) \<Rightarrow> (Inl e, d2)
       | (Inr u, d2) \<Rightarrow> (Inr (v\<lparr>vis_status := V_completed\<rparr>), d2))"
    unfolding complete_visit_def cu d1_def by (simp add: f v(2) Let_def)
  obtain res d2 where cls: "complete_linked_schedule (v\<lparr>vis_status := V_completed\<rparr>) d1 = (res, d2)"
    by (cases "complete_linked_schedule (v\<lparr>vis_status := V_completed\<rparr>) d1")
  have tail: "complete_linked_schedule (v\<lparr>vis_status := V_completed\<rparr>) d1 = (Inr (), d')"
    and v': "v' = v\<lparr>vis_status := V_completed\<rparr>"
    using assms unfolding step cls by (cases res; simp add: cls)+
  have vis: "clinic_visits d' = clinic_visits d1"
    using complete_linked_schedule_other_tables[of "v\<lparr>vis_status := V_completed\<rparr>" d1] tail
    by simp
  have sl: "r\<lparr>sch_status := completed\<rparr> \<in> set (appointment_schedules d')"
    if "vis_schedule_id v = Some sid" "sid \<noteq> 0" "r \<in> set (appointment_schedules d1)"
       "sch_schedule_id r = sid" for sid r
    using complete_linked_schedule_rows[OF tail _ that(2,3,4)] that(1) by simp
  have sch1: "appointment_schedules d1 = appointment_schedules d"
    by (simp add: d1_def update_visit_row_def)
  have vis1: "clinic_visits d1 =
      map (\<lambda>w. if vis_visit_id w = visit_id then w\<lparr>vis_status := V_completed\<rparr> else w)
          (clinic_visits d)"
    by (simp add: d1_def update_visit_row_def)
  have in': "v' \<in> set (clinic_visits d')"
    unfolding vis vis1 v' using v(1,2) by (auto simp: image_iff intro!: bexI[of _ v])
  have all': "vis_status w = V_completed"
    if w: "w \<in> set (clinic_visits d')" "vis_visit_id w = visit_id" for w
  proof -
    from w(1) obtain x where
      x: "w = (if vis_visit_id x = visit_id then x\<lparr>vis_status := V_completed\<rparr> else x)"
      unfolding vis vis1 set_map by (rule imageE)
    show ?thesis
    proof (cases "vis_visit_id x = visit_id")
      case True
      then show ?thesis by (simp add: x)
    next
      case False
      then show ?thesis using w(2) by (simp add: x)
    qed
  qed
  show ?thesis
  proof (rule bexI[of _ v], intro conjI allI impI ballI)
    fix sid r
    assume "vis_schedule_id v = Some sid \<and> sid \<noteq> 0" "r \<in> set (appointment_schedules d)"
      "sch_schedule_id r = sid"
    then show "r\<lparr>sch_status := completed\<rparr> \<in> set (appointment_schedules d')"
      using sl[of sid r] sch1 by simp
  next
    fix w assume "w \<in> set (clinic_visits d')" "vis_visit_id w = visit_id"
    then show "vis_status w = V_completed" by (rule all')
  qed (use v role v' in' in simp_all)
qed

theorem complete_visit_completes_visit_and_slot_witness:
  "complete_visit 1 doctor_doc (visit_db booked V_pending) =
     (Inr (visit_row 1 7 ''doc'' (Some 1) 8 V_completed), visit_db completed V_completed)
   \<and> (\<exists>v \<in> set (clinic_visits (visit_db booked V_pending)).
         vis_visit_id v = 1 \<and> vis_status v = V_pending \<and> vis_schedule_id v = Some 1 \<and>
         visit_row 1 7 ''doc'' (Some 1) 8 V_completed = v\<lparr>vis_status := V_completed\<rparr>)
   \<and> (slot_row 1 ''doc'' (Some 7) 8 32400000000 33600000000 booked)\<lparr>sch_status := completed\<rparr>
        \<in> set (appointment_schedules (visit_db completed V_completed))"
  using complete_visit_completes_visit_and_slot [OF complete_visit_run] complete_visit_run
  by (simp add: visit_db_def empty_db_def slot_row_def visit_row_def)

text \<open>
  C10. Every successful \<open>create_diagnosis\<close> on a visit that references a slot
  sets that slot's status to \<open>completed\<close>, whatever it was before, appends the
  diagnosis and leaves the visit table, and so the visit's own status, unchanged.
\<close>

theorem create_diagnosis_completes_slot:
  assumes "create_diagnosis diagnosis u d = (Inr dg, d')"
  shows "\<exists>v \<in> set (clinic_visits d).
           vis_visit_id v = dc_visit_id diagnosis \<and> vis_doctor_id v = p_user_id u \<and>
           clinic_visits d' = clinic_visits d \<and>
           doctor_diagnoses d' = doctor_diagnoses d @ [dg] \<and>
           (\<forall>sid. vis_schedule_id v = Some sid \<and> sid \<noteq> 0 \<longrightarrow>
              (\<forall>r \<in> set (appointment_schedules d). sch_schedule_id r = sid \<longrightarrow>
                  r\<lparr>sch_status := completed\<rparr> \<in> set (appointment_schedules d')))"
proof -
  have role: "p_role u = ''doctor''"
    using assms
    by (cases "p_role u = ''doctor''") (simp_all add: create_diagnosis_def get_current_doctor_def)
  then have cu: "get_current_doctor u = Inr u"
    by (simp add: get_current_doctor_def)
  let ?q = "filter (\<lambda>v. vis_visit_id v = dc_visit_id diagnosis \<and> vis_doctor_id v = p_user_id u)
              (clinic_visits d)"
  obtain v where f: "?q = [v]"
    using assms unfolding create_diagnosis_def cu
    by (cases ?q rule: scalar_one_or_none.cases) simp_all
  from filter_singleton[OF f] have v: "v \<in> set (clinic_visits d)"
    "vis_visit_id v = dc_visit_id diagnosis" "vis_doctor_id v = p_user_id u"
    by simp_all
  have st: "vis_student_id v = dc_student_id diagnosis"
    using assms unfolding create_diagnosis_def cu
    by (cases "vis_student_id v = dc_student_id diagnosis") (simp_all add: f)
  define g where "g =
     \<lparr> dg_diagnosis_id = diagnosis_seq d,
       dg_visit_id = dc_visit_id diagnosis,
       dg_student_id = dc_student_id diagnosis,
       dg_complaint_id = dc_complaint_id diagnosis,
       dg_doctor_id = p_user_id u,
       dg_diagnosis_description = dc_diagnosis_description diagnosis,
       dg_treatment_plan = dc_treatment_plan diagnosis \<rparr>"
  define d1 where "d1 = d\<lparr>doctor_diagnoses := doctor_diagnoses d @ [g],
                             diagnosis_seq := Suc (diagnosis_seq d)\<rparr>"
  have step: "create_diagnosis diagnosis u d =
      (case complete_linked_schedule v d1 of
         (Inl e, d2) \<Rightarrow> (Inl (HTTPException 500), d2)
       | (Inr u, d2) \<Rightarrow> (Inr g, d2))"
    unfolding create_diagnosis_def cu d1_def g_def by (simp add: f st Let_def)
  obtain res d2 where cls: "complete_linked_schedule v d1 = (res, d2)"
    by (cases "complete_linked_schedule v d1")
  have tail: "complete_linked_schedule v d1 = (Inr (), d')" and dg: "dg = g"
    using assms unfolding step cls by (cases res; simp add: cls)+
  have other: "clinic_visits d' = clinic_visits d1" "doctor_diagnoses d' = doctor_diagnoses d1"
    using complete_linked_schedule_other_tables[of v d1] tail by simp_all
  have sl: "r\<lparr>sch_status := completed\<rparr> \<in> set (appointment_schedules d')"
    if "vis_schedule_id v = Some sid" "sid \<noteq> 0" "r \<in> set (appointment_schedules d1)"
       "sch_schedule_id r = sid" for sid r
    using complete_linked_schedule_rows[OF tail that] .
  have d1s: "appointment_schedules d1 = appointment_schedules d"
    "clinic_visits d1 = clinic_visits d" "doctor_diagnoses d1 = doctor_diagnoses d @ [g]"
    by (simp_all add: d1_def)
  show ?thesis
  proof (rule bexI[of _ v], intro conjI allI impI ballI)
    fix sid r
    assume "vis_schedule_id v = Some sid \<and> sid \<noteq> 0" "r \<in> set (appointment_schedules d)"
      "sch_schedule_id r = sid"
    then show "r\<lparr>sch_status := completed\<rparr> \<in> set (appointment_schedules d')"
      using sl[of sid r] d1s(1) by simp
  qed (use v other d1s dg in simp_all)
qed

theorem create_diagnosis_completes_slot_witness:
  "create_diagnosis diagnosis_request doctor_doc (visit_db cancelled V_pending) =
     (Inr diagnosis_row,
      (visit_db completed V_pending)\<lparr>doctor_diagnoses := [diagnosis_row], diagnosis_seq := 2\<rparr>)
   \<and> sch_status (slot_row 1 ''doc'' (Some 7) 8 32400000000 33600000000 cancelled) = cancelled
   \<and> appointment_schedules
        ((visit_db completed V_pending)\<lparr>doctor_diagnoses := [diagnosis_row], diagnosis_seq := 2\<rparr>) =
       [slot_row 1 ''doc'' (Some 7) 8 32400000000 33600000000 completed]
   \<and> clinic_visits
        ((visit_db completed V_pending)\<lparr>doctor_diagnoses := [diagnosis_row], diagnosis_seq := 2\<rparr>) =
       [visit_row 1 7 ''doc'' (Some 1) 8 V_pending]"
  using create_diagnosis_completes_slot [OF create_diagnosis_run] create_diagnosis_run
  by (simp add: visit_db_def empty_db_def slot_row_def visit_row_def)

text \<open>
  C1, evaluated where two claims of one slot are served one after the other, which is
  one of the orders two concurrent requests can be served in. On an \<open>available\<close>,
  unassigned slot both \<open>book_schedule\<close> requests end with
  \<open>InvalidRequestError\<close> (status 500) and the slot stays \<open>available\<close> with no
  visit: no request wins. Through \<open>create_visit_and_complaint\<close> the first request
  wins and the second is answered with status 500; on a \<open>booked\<close>, unassigned slot
  both such requests are answered with status 500.
\<close>

theorem sequential_claims_never_one_winner:
  "sch_status (slot_row 1 ''doc'' None 8 32400000000 33600000000 available) = available
   \<and> sch_student_id (slot_row 1 ''doc'' None 8 32400000000 33600000000 available) = None
   \<and> appointment_schedules (one_slot_db None available) =
        [slot_row 1 ''doc'' None 8 32400000000 33600000000 available]
   \<and> book_schedule True 1 student7 (one_slot_db None available) =
        (Inl InvalidRequestError, one_slot_db None available)
   \<and> book_schedule True 1 student8 (one_slot_db None available) =
        (Inl InvalidRequestError, one_slot_db None available)
   \<and> http_status InvalidRequestError = 500
   \<and> clinic_visits (one_slot_db None available) = []
   \<and> create_visit_and_complaint 1 ''fever'' student7 (one_slot_db None available) =
        (Inr (visit_row 1 7 ''doc'' (Some 1) 8 V_pending), complaint_after)
   \<and> create_visit_and_complaint 1 ''cough'' student8 complaint_after =
        (Inl (HTTPException 500), complaint_after)
   \<and> create_visit_and_complaint 1 ''fever'' student7 (one_slot_db None booked) =
        (Inl (HTTPException 500), one_slot_db None booked)
   \<and> create_visit_and_complaint 1 ''cough'' student8 (one_slot_db None booked) =
        (Inl (HTTPException 500), one_slot_db None booked)"
  by (simp add: book_schedule_def create_visit_and_complaint_def
        create_visit_and_complaint_body_def Let_def update_schedule_row_def one_slot_db_def
        empty_db_def slot_row_def visit_row_def student7_def student8_def complaint_after_def)

text \<open>
  The body of \<open>create_visit_and_complaint\<close> is its queries followed by its writes.
  When the queries of two requests for one \<open>available\<close> slot are both answered
  before either request commits, both requests pass their checks and both write: the
  slot ends \<open>booked\<close> for the second student with two visits linked to it.
\<close>

lemma create_visit_and_complaint_body_steps:
  "create_visit_and_complaint_body sid descr cu d =
     (case complaint_checks sid cu d of
        Inl e \<Rightarrow> (Inl e, d)
      | Inr schedule \<Rightarrow>
          (case complaint_writes schedule descr cu d of (visit, d') \<Rightarrow> (Inr visit, d')))"
  by (simp add: create_visit_and_complaint_body_def complaint_checks_def complaint_writes_def
        Let_def split: sum.splits option.splits)

lemma interleaved_claims_both_succeed:
  "complaint_checks 1 student7 (one_slot_db None available) =
     Inr (slot_row 1 ''doc'' None 8 32400000000 33600000000 available)
   \<and> complaint_checks 1 student8 (one_slot_db None available) =
     Inr (slot_row 1 ''doc'' None 8 32400000000 33600000000 available)
   \<and> complaint_writes (slot_row 1 ''doc'' None 8 32400000000 33600000000 available)
        ''fever'' student7 (one_slot_db None available) =
     (visit_row 1 7 ''doc'' (Some 1) 8 V_pending, complaint_after)
   \<and> complaint_writes (slot_row 1 ''doc'' None 8 32400000000 33600000000 available)
        ''cough'' student8 complaint_after =
     (visit_row 2 8 ''doc'' (Some 1) 8 V_pending, interleaved_after)
   \<and> length (filter (\<lambda>v. vis_schedule_id v = Some 1) (clinic_visits interleaved_after)) = 2"
  by (simp add: complaint_checks_def complaint_writes_def Let_def update_schedule_row_def
        one_slot_db_def empty_db_def slot_row_def visit_row_def student7_def student8_def
        complaint_after_def interleaved_after_def)

section \<open>The no-overlap invariant\<close>

lemma no_overlap_snoc:
  "no_overlap (rs @ [r]) \<longleftrightarrow> no_overlap rs \<and> (\<forall>x \<in> set rs. \<not> overlaps x r)"
  by (induction rs) (auto simp: list_all_iff)

text \<open>
  Manual creation keeps the invariant: \<open>create_schedule\<close> inserts only when no
  row of the doctor on that date overlaps the requested range.
\<close>

lemma create_schedule_preserves_no_overlap:
  assumes "create_schedule today schedule u d = (Inr r, d')"
    and "no_overlap (appointment_schedules d)"
  shows "no_overlap (appointment_schedules d')"
proof -
  have role: "p_role u = ''doctor''"
    using assms(1)
    by (cases "p_role u = ''doctor''") (simp_all add: create_schedule_def get_current_doctor_def)
  then have cu: "get_current_doctor u = Inr u"
    by (simp add: get_current_doctor_def)
  let ?q = "filter (\<lambda>r. sch_doctor_id r = p_user_id u \<and> sch_date r = sc_date schedule \<and>
                       sch_start_time r < sc_end_time schedule \<and>
                       sch_end_time r > sc_start_time schedule) (appointment_schedules d)"
  let ?new = "\<lparr> sch_schedule_id = schedule_seq d, sch_doctor_id = p_user_id u,
                sch_student_id = None, sch_availability_id = Some (sc_availability_id schedule),
                sch_start_time = sc_start_time schedule, sch_end_time = sc_end_time schedule,
                sch_date = sc_date schedule, sch_status = available \<rparr>"
  have q: "?q = []" and d': "appointment_schedules d' = appointment_schedules d @ [?new]"
    using assms(1) unfolding create_schedule_def cu
    by (auto simp: Let_def scalar_one_or_none_None split: if_splits sum.splits option.splits)
  have "\<not> overlaps x ?new" if "x \<in> set (appointment_schedules d)" for x
    using q that by (auto simp: filter_empty_conv overlaps_def)
  then show ?thesis
    unfolding d' no_overlap_snoc using assms(2) by blast
qed

lemma manual_slot_created:
  "create_schedule 1 manual_request doctor_doc window_db = (Inr manual_slot, manual_db)"
  by (simp add: create_schedule_def get_current_doctor_def Let_def manual_request_def
        manual_slot_def manual_db_def window_db_def monday_window_def empty_db_def slot_row_def
        doctor_doc_def weekday_def calendar_day_name_def)

text \<open>
  C9, evaluated at a table that satisfies the invariant. The doctor has an active
  Monday window 09:00 to 09:50 and has created the manual slot 09:10 to 09:30 on the
  coming Monday. The generator then inserts 09:00 to 09:20 and 09:20 to 09:40 for the
  same doctor and date, since its duplicate query compares exact tuples only, and both
  overlap the manual slot.
\<close>

theorem generator_overlaps_manual_slot:
  "create_schedule 1 manual_request doctor_doc window_db = (Inr manual_slot, manual_db)
   \<and> no_overlap (appointment_schedules manual_db)
   \<and> generate_schedules 1 manual_db = (Inr (), manual_db_after)
   \<and> \<not> no_overlap (appointment_schedules manual_db_after)
   \<and> overlaps manual_slot
        ((slot_row 2 ''doc'' None 8 32400000000 33600000000 available)
           \<lparr>sch_availability_id := Some 1\<rparr>)"
proof -
  have run: "generate_schedules 1 manual_db = (Inr (), manual_db_after)"
    by (simp add: generator_eval manual_db_def manual_db_after_def manual_slot_def window_db_def
          monday_window_def empty_db_def slot_row_def)
  show ?thesis
    using manual_slot_created run
    by (simp add: manual_db_def manual_db_after_def manual_slot_def slot_row_def overlaps_def)
qed

end
